theory Spec2Isabelle
  imports Main "HOL-Library.Word" "HOL-Library.Sublist"
begin

unbundle bit_operations_syntax

section \<open>Data model\<close>

text \<open>
  The contents of an array are a byte sequence. A \<open>QByteArray\<close> is either null, as the
  default-constructed \<open>QByteArray()\<close> is, or holds bytes, as \<open>QByteArray(ptr, n)\<close>
  does for a pointer that is not null, also when \<open>n\<close> is 0. A null array and an empty one
  have the same bytes: \<open>size()\<close> is 0, \<open>isEmpty()\<close> is true and \<open>operator==\<close> finds
  them equal; \<open>isNull()\<close> tells them apart.

  The functions take each array argument by its bytes: of an argument they use
  \<open>size()\<close>, \<open>length()\<close>, \<open>isEmpty()\<close> and \<open>data()\<close> only, which do not differ
  between a null and an empty array. The \<open>QAead\<close> and \<open>QBlockCipher\<close> functions
  return an array only when they succeed, through \<open>QByteArray(ptr, n)\<close> on their buffer,
  so never a null one, and their result is given by its bytes too. The
  \<open>AuthenticatedEncryption\<close> functions return \<open>QByteArray()\<close> on failure, so their
  result is a \<open>QByteArray\<close>.
\<close>

type_synonym byte = "8 word"
type_synonym bytes = "byte list"

datatype QByteArray = Null | Bytes bytes

fun bytes_of :: "QByteArray \<Rightarrow> bytes" where
  "bytes_of Null = []"
| "bytes_of (Bytes bs) = bs"

fun isNull :: "QByteArray \<Rightarrow> bool" where
  "isNull Null \<longleftrightarrow> True"
| "isNull (Bytes bs) \<longleftrightarrow> False"

text \<open>
  The \<open>const EVP_CIPHER*\<close> and \<open>const EVP_MD*\<close> arguments are opaque to the drivers: they
  are handed to the provider unchanged. The doc comments name AES with 128, 192 and 256
  bit keys in the modes gcm, ccm, ecb, cbc, cfb, ofb and ctr.
\<close>

datatype key_bits = AES128 | AES192 | AES256
datatype cipher_mode = GCM | CCM | ECB | CBC | CFB | OFB | CTR
datatype EVP_CIPHER = EVP_aes key_bits cipher_mode
datatype EVP_MD = EVP_md5 | EVP_sha1 | EVP_sha256 | EVP_sha512

text \<open>The control codes the drivers pass to \<open>EVP_CIPHER_CTX_ctrl\<close>.\<close>

datatype ctrl_type =
    EVP_CTRL_GCM_SET_IVLEN | EVP_CTRL_GCM_GET_TAG | EVP_CTRL_GCM_SET_TAG
  | EVP_CTRL_CCM_SET_IVLEN | EVP_CTRL_CCM_GET_TAG | EVP_CTRL_CCM_SET_TAG

text \<open>
  An output pointer is \<open>nullptr\<close> or an offset into the driver's output buffer
  (\<open>cipherText.get()\<close> is \<open>Buf 0\<close>, \<open>cipherText.get() + n\<close> is \<open>Buf n\<close>). An input
  pointer is \<open>None\<close> for \<open>nullptr\<close> and otherwise the bytes of the array it points into.
\<close>

datatype out_ptr = Nullptr | Buf int

text \<open>
  The provider calls made on a cipher context, with the arguments the drivers pass:
  \<open>Init\<close> takes cipher, key and iv (the engine argument is always \<open>nullptr\<close>);
  \<open>ctrl\<close> takes type, arg and ptr; \<open>Update\<close> takes out, in and inl; \<open>Final\<close> takes out.
\<close>

datatype evp_call =
    EVP_EncryptInit_ex EVP_CIPHER bytes bytes
  | EVP_DecryptInit_ex EVP_CIPHER bytes bytes
  | EVP_CIPHER_CTX_ctrl ctrl_type int "bytes option"
  | EVP_EncryptUpdate out_ptr "bytes option" int
  | EVP_DecryptUpdate out_ptr "bytes option" int
  | EVP_EncryptFinal_ex out_ptr
  | EVP_DecryptFinal_ex out_ptr
  | EVP_EncryptFinal out_ptr
  | EVP_DecryptFinal out_ptr

text \<open>
  What a provider call hands back: its return code (the drivers test \<open>!ret\<close>, so 0 is
  failure), the count it stores through \<open>&outl\<close>, and the bytes it writes through its
  output pointer (\<open>out\<close>, or \<open>ptr\<close> for a get-tag control).
\<close>

record evp_ret =
  ret :: int
  outl :: int
  written :: bytes

text \<open>
  The cryptographic provider is not part of the repository, so it is a parameter of every
  driver: \<open>EVP_CIPHER_CTX_new\<close> yields a fresh context or \<open>None\<close> for a null pointer,
  \<open>evp\<close> performs one call on a context, and \<open>EVP_BytesToKey\<close> (cipher, md, salt, data,
  datal, count) returns its return code and the bytes it writes through \<open>key\<close> and \<open>iv\<close>.
\<close>

record 'c provider =
  EVP_CIPHER_CTX_new :: "'c option"
  evp :: "'c \<Rightarrow> evp_call \<Rightarrow> evp_ret \<times> 'c"
  EVP_BytesToKey ::
    "EVP_CIPHER \<Rightarrow> EVP_MD \<Rightarrow> bytes \<Rightarrow> bytes \<Rightarrow> int \<Rightarrow> int \<Rightarrow> int \<times> bytes \<times> bytes"

text \<open>
  Every \<open>throw std::runtime_error\<close> of the source is one \<open>failure\<close>, named after the step
  whose message it carries. Reading or writing outside a buffer and signed overflow are
  undefined in C++; the model makes them outcomes of their own.
\<close>

datatype failure =
    E_ctx_new | E_init | E_set_ivlen | E_set_tag | E_total_length | E_aad
  | E_update | E_final | E_get_tag | E_bytes_to_key

datatype buffer = OutputBuf | TagBuf | KeyBuf | IvBuf

datatype error = Thrown failure | OutOfBounds buffer | IntOverflow

text \<open>The calls made on the context so far, each with what the provider handed back.\<close>

type_synonym trace = "(evp_call \<times> evp_ret) list"

definition call :: "'c provider \<Rightarrow> 'c \<times> trace \<Rightarrow> evp_call \<Rightarrow> evp_ret \<times> ('c \<times> trace)" where
  "call P s c = (case evp P (fst s) c of (r, ctx') \<Rightarrow> (r, (ctx', snd s @ [(c, r)])))"

subsection \<open>Buffers\<close>

text \<open>\<open>new unsigned char[n]()\<close>: \<open>n\<close> zero bytes.\<close>

definition new_buf :: "nat \<Rightarrow> bytes" where
  "new_buf n = replicate n 0"

text \<open>
  \<open>fits buf off n\<close>: \<open>n\<close> bytes at offset \<open>off\<close> lie inside the buffer. \<open>store\<close> is the
  buffer after bytes were written at an offset where they fit; \<open>QByteArray(ptr, n)\<close> copies
  the first \<open>n\<close> bytes, \<open>take (nat n)\<close>, when \<open>fits buf 0 n\<close>.
\<close>

definition fits :: "bytes \<Rightarrow> int \<Rightarrow> int \<Rightarrow> bool" where
  "fits buf off n \<longleftrightarrow> 0 \<le> off \<and> 0 \<le> n \<and> off + n \<le> int (length buf)"

definition store :: "bytes \<Rightarrow> int \<Rightarrow> bytes \<Rightarrow> bytes" where
  "store buf off bs = take (nat off) buf @ bs @ drop (nat off + length bs) buf"

section \<open>QAead\<close>

text \<open>
  Each function returns its outcome and the trace of provider calls. \<open>tag\<close> is passed by
  reference and written in place (\<open>const_cast\<close> of \<open>tag.constData()\<close>), so a successful
  encryption returns the new contents of \<open>tag\<close> beside the ciphertext. When \<open>aad\<close> is empty
  the aad step is skipped and the previous successful result stays in \<open>r\<close>. Allocation
  with \<open>new\<close> is taken to succeed.
\<close>

definition encryptAesGcm ::
  "'c provider \<Rightarrow> bytes \<Rightarrow> bytes \<Rightarrow> bytes \<Rightarrow> bytes \<Rightarrow> bytes \<Rightarrow> EVP_CIPHER
     \<Rightarrow> (error + bytes \<times> bytes) \<times> trace" where
  "encryptAesGcm P data key iv tag aad cipher =
    (case EVP_CIPHER_CTX_new P of
       None \<Rightarrow> (Inl (Thrown E_ctx_new), [])
     | Some encryptionCipher \<Rightarrow>
       let plainTextLength = int (length data);
           cipherText = new_buf (length data);
           (r, s) = call P (encryptionCipher, []) (EVP_EncryptInit_ex cipher key iv)
       in if ret r = 0 then (Inl (Thrown E_init), snd s) else
       let (r, s) = call P s (EVP_CIPHER_CTX_ctrl EVP_CTRL_GCM_SET_IVLEN (int (length iv)) None)
       in if ret r = 0 then (Inl (Thrown E_set_ivlen), snd s) else
       let (r, s) = (if aad \<noteq> []
                     then call P s (EVP_EncryptUpdate Nullptr (Some aad) (int (length aad)))
                     else (r, s))
       in if ret r = 0 then (Inl (Thrown E_aad), snd s) else
       let (r, s) = call P s (EVP_EncryptUpdate (Buf 0) (Some data) plainTextLength)
       in if ret r = 0 then (Inl (Thrown E_update), snd s) else
          if \<not> fits cipherText 0 (int (length (written r))) then (Inl (OutOfBounds OutputBuf), snd s) else
       let cipherTextLength = outl r;
           cipherText = store cipherText 0 (written r);
           (r, s) = call P s (EVP_EncryptFinal_ex (Buf 0))
       in if ret r = 0 then (Inl (Thrown E_final), snd s) else
          if \<not> fits cipherText 0 (int (length (written r))) then (Inl (OutOfBounds OutputBuf), snd s) else
       let cipherText = store cipherText 0 (written r);
           (r, s) = call P s (EVP_CIPHER_CTX_ctrl EVP_CTRL_GCM_GET_TAG (int (length tag)) (Some tag))
       in if ret r = 0 then (Inl (Thrown E_get_tag), snd s) else
          if \<not> fits tag 0 (int (length (written r))) then (Inl (OutOfBounds TagBuf), snd s) else
          if \<not> fits cipherText 0 cipherTextLength then (Inl (OutOfBounds OutputBuf), snd s) else
          (Inr (take (nat cipherTextLength) cipherText, store tag 0 (written r)), snd s))"

definition decryptAesGcm ::
  "'c provider \<Rightarrow> bytes \<Rightarrow> bytes \<Rightarrow> bytes \<Rightarrow> bytes \<Rightarrow> bytes \<Rightarrow> EVP_CIPHER
     \<Rightarrow> (error + bytes) \<times> trace" where
  "decryptAesGcm P data key iv tag aad cipher =
    (case EVP_CIPHER_CTX_new P of
       None \<Rightarrow> (Inl (Thrown E_ctx_new), [])
     | Some decryptionCipher \<Rightarrow>
       let cipherTextLength = int (length data);
           plainText = new_buf (length data);
           (r, s) = call P (decryptionCipher, []) (EVP_DecryptInit_ex cipher key iv)
       in if ret r = 0 then (Inl (Thrown E_init), snd s) else
       let (r, s) = call P s (EVP_CIPHER_CTX_ctrl EVP_CTRL_GCM_SET_IVLEN (int (length iv)) None)
       in if ret r = 0 then (Inl (Thrown E_set_ivlen), snd s) else
       let (r, s) = (if aad \<noteq> []
                     then call P s (EVP_DecryptUpdate Nullptr (Some aad) (int (length aad)))
                     else (r, s))
       in if ret r = 0 then (Inl (Thrown E_aad), snd s) else
       let (r, s) = call P s (EVP_DecryptUpdate (Buf 0) (Some data) cipherTextLength)
       in if ret r = 0 then (Inl (Thrown E_update), snd s) else
          if \<not> fits plainText 0 (int (length (written r))) then (Inl (OutOfBounds OutputBuf), snd s) else
       let plainTextLength = outl r;
           plainText = store plainText 0 (written r);
           (r, s) = call P s (EVP_CIPHER_CTX_ctrl EVP_CTRL_GCM_SET_TAG (int (length tag)) (Some tag))
       in if ret r = 0 then (Inl (Thrown E_set_tag), snd s) else
       let (r, s) = call P s (EVP_DecryptFinal_ex (Buf 0))
       in if ret r = 0 then (Inl (Thrown E_final), snd s) else
          if \<not> fits plainText 0 (int (length (written r))) then (Inl (OutOfBounds OutputBuf), snd s) else
       let plainText = store plainText 0 (written r)
       in if \<not> fits plainText 0 plainTextLength then (Inl (OutOfBounds OutputBuf), snd s) else
          (Inr (take (nat plainTextLength) plainText), snd s))"

definition encryptAesCcm ::
  "'c provider \<Rightarrow> bytes \<Rightarrow> bytes \<Rightarrow> bytes \<Rightarrow> bytes \<Rightarrow> bytes \<Rightarrow> EVP_CIPHER
     \<Rightarrow> (error + bytes \<times> bytes) \<times> trace" where
  "encryptAesCcm P data key iv tag aad cipher =
    (case EVP_CIPHER_CTX_new P of
       None \<Rightarrow> (Inl (Thrown E_ctx_new), [])
     | Some encryptionCipher \<Rightarrow>
       let plainTextLength = int (length data);
           cipherText = new_buf (length data);
           (r, s) = call P (encryptionCipher, []) (EVP_EncryptInit_ex cipher key iv)
       in if ret r = 0 then (Inl (Thrown E_init), snd s) else
       let (r, s) = call P s (EVP_CIPHER_CTX_ctrl EVP_CTRL_CCM_SET_IVLEN (int (length iv)) None)
       in if ret r = 0 then (Inl (Thrown E_set_ivlen), snd s) else
       let (r, s) = call P s (EVP_CIPHER_CTX_ctrl EVP_CTRL_CCM_SET_TAG (int (length tag)) None)
       in if ret r = 0 then (Inl (Thrown E_set_tag), snd s) else
       let (r, s) = (if aad \<noteq> []
                     then call P s (EVP_EncryptUpdate Nullptr None plainTextLength)
                     else (r, s))
       in if ret r = 0 then (Inl (Thrown E_total_length), snd s) else
       let (r, s) = (if aad \<noteq> []
                     then call P s (EVP_EncryptUpdate Nullptr (Some aad) (int (length aad)))
                     else (r, s))
       in if ret r = 0 then (Inl (Thrown E_aad), snd s) else
       let (r, s) = call P s (EVP_EncryptUpdate (Buf 0) (Some data) plainTextLength)
       in if ret r = 0 then (Inl (Thrown E_update), snd s) else
          if \<not> fits cipherText 0 (int (length (written r))) then (Inl (OutOfBounds OutputBuf), snd s) else
       let cipherTextLength = outl r;
           cipherText = store cipherText 0 (written r);
           (r, s) = call P s (EVP_EncryptFinal_ex (Buf 0))
       in if ret r = 0 then (Inl (Thrown E_final), snd s) else
          if \<not> fits cipherText 0 (int (length (written r))) then (Inl (OutOfBounds OutputBuf), snd s) else
       let cipherText = store cipherText 0 (written r);
           (r, s) = call P s (EVP_CIPHER_CTX_ctrl EVP_CTRL_CCM_GET_TAG (int (length tag)) (Some tag))
       in if ret r = 0 then (Inl (Thrown E_get_tag), snd s) else
          if \<not> fits tag 0 (int (length (written r))) then (Inl (OutOfBounds TagBuf), snd s) else
          if \<not> fits cipherText 0 cipherTextLength then (Inl (OutOfBounds OutputBuf), snd s) else
          (Inr (take (nat cipherTextLength) cipherText, store tag 0 (written r)), snd s))"

definition decryptAesCcm ::
  "'c provider \<Rightarrow> bytes \<Rightarrow> bytes \<Rightarrow> bytes \<Rightarrow> bytes \<Rightarrow> bytes \<Rightarrow> EVP_CIPHER
     \<Rightarrow> (error + bytes) \<times> trace" where
  "decryptAesCcm P data key iv tag aad cipher =
    (case EVP_CIPHER_CTX_new P of
       None \<Rightarrow> (Inl (Thrown E_ctx_new), [])
     | Some decryptionCipher \<Rightarrow>
       let cipherTextLength = int (length data);
           plainText = new_buf (length data);
           (r, s) = call P (decryptionCipher, []) (EVP_DecryptInit_ex cipher key iv)
       in if ret r = 0 then (Inl (Thrown E_init), snd s) else
       let (r, s) = call P s (EVP_CIPHER_CTX_ctrl EVP_CTRL_CCM_SET_IVLEN (int (length iv)) None)
       in if ret r = 0 then (Inl (Thrown E_set_ivlen), snd s) else
       let (r, s) = call P s (EVP_CIPHER_CTX_ctrl EVP_CTRL_CCM_SET_TAG (int (length tag)) (Some tag))
       in if ret r = 0 then (Inl (Thrown E_set_tag), snd s) else
       let (r, s) = (if aad \<noteq> []
                     then call P s (EVP_DecryptUpdate Nullptr None cipherTextLength)
                     else (r, s))
       in if ret r = 0 then (Inl (Thrown E_total_length), snd s) else
       let (r, s) = (if aad \<noteq> []
                     then call P s (EVP_DecryptUpdate Nullptr (Some aad) (int (length aad)))
                     else (r, s))
       in if ret r = 0 then (Inl (Thrown E_aad), snd s) else
       let (r, s) = call P s (EVP_DecryptUpdate (Buf 0) (Some data) cipherTextLength)
       in if ret r = 0 then (Inl (Thrown E_update), snd s) else
          if \<not> fits plainText 0 (int (length (written r))) then (Inl (OutOfBounds OutputBuf), snd s) else
       let plainTextLength = outl r;
           plainText = store plainText 0 (written r);
           (r, s) = call P s (EVP_DecryptFinal_ex (Buf 0))
       in if ret r = 0 then (Inl (Thrown E_final), snd s) else
          if \<not> fits plainText 0 (int (length (written r))) then (Inl (OutOfBounds OutputBuf), snd s) else
       let plainText = store plainText 0 (written r)
       in if \<not> fits plainText 0 plainTextLength then (Inl (OutOfBounds OutputBuf), snd s) else
          (Inr (take (nat plainTextLength) plainText), snd s))"

section \<open>AuthenticatedEncryption\<close>

text \<open>
  The older class makes the same provider calls as \<open>QAead\<close>. It throws nothing: every
  failed step logs a message and returns \<open>QByteArray()\<close>, the null array; a run that
  succeeds returns \<open>QByteArray(ptr, n)\<close> on its buffer. \<open>tag\<close> is a pointer to the
  caller's array; the encryption functions return its contents beside their result.
\<close>

definition encrypt_aes_gcm ::
  "'c provider \<Rightarrow> bytes \<Rightarrow> bytes \<Rightarrow> bytes \<Rightarrow> bytes \<Rightarrow> bytes \<Rightarrow> EVP_CIPHER
     \<Rightarrow> (error + QByteArray \<times> bytes) \<times> trace" where
  "encrypt_aes_gcm P data key iv tag aad cipher =
    (case EVP_CIPHER_CTX_new P of
       None \<Rightarrow> (Inr (Null, tag), [])
     | Some en \<Rightarrow>
       let plainTextLength = int (length data);
           cipherText = new_buf (length data);
           (r, s) = call P (en, []) (EVP_EncryptInit_ex cipher key iv)
       in if ret r = 0 then (Inr (Null, tag), snd s) else
       let (r, s) = call P s (EVP_CIPHER_CTX_ctrl EVP_CTRL_GCM_SET_IVLEN (int (length iv)) None)
       in if ret r = 0 then (Inr (Null, tag), snd s) else
       let (r, s) = (if aad \<noteq> []
                     then call P s (EVP_EncryptUpdate Nullptr (Some aad) (int (length aad)))
                     else (r, s))
       in if ret r = 0 then (Inr (Null, tag), snd s) else
       let (r, s) = call P s (EVP_EncryptUpdate (Buf 0) (Some data) plainTextLength)
       in if ret r = 0 then (Inr (Null, tag), snd s) else
          if \<not> fits cipherText 0 (int (length (written r))) then (Inl (OutOfBounds OutputBuf), snd s) else
       let cipherTextLength = outl r;
           cipherText = store cipherText 0 (written r);
           (r, s) = call P s (EVP_EncryptFinal_ex (Buf 0))
       in if ret r = 0 then (Inr (Null, tag), snd s) else
          if \<not> fits cipherText 0 (int (length (written r))) then (Inl (OutOfBounds OutputBuf), snd s) else
       let cipherText = store cipherText 0 (written r);
           (r, s) = call P s (EVP_CIPHER_CTX_ctrl EVP_CTRL_GCM_GET_TAG (int (length tag)) (Some tag))
       in if ret r = 0 then (Inr (Null, tag), snd s) else
          if \<not> fits tag 0 (int (length (written r))) then (Inl (OutOfBounds TagBuf), snd s) else
          if \<not> fits cipherText 0 cipherTextLength then (Inl (OutOfBounds OutputBuf), snd s) else
          (Inr (Bytes (take (nat cipherTextLength) cipherText), store tag 0 (written r)), snd s))"

definition decrypt_aes_gcm ::
  "'c provider \<Rightarrow> bytes \<Rightarrow> bytes \<Rightarrow> bytes \<Rightarrow> bytes \<Rightarrow> bytes \<Rightarrow> EVP_CIPHER
     \<Rightarrow> (error + QByteArray) \<times> trace" where
  "decrypt_aes_gcm P data key iv tag aad cipher =
    (case EVP_CIPHER_CTX_new P of
       None \<Rightarrow> (Inr Null, [])
     | Some de \<Rightarrow>
       let cipherTextLength = int (length data);
           plainText = new_buf (length data);
           (r, s) = call P (de, []) (EVP_DecryptInit_ex cipher key iv)
       in if ret r = 0 then (Inr Null, snd s) else
       let (r, s) = call P s (EVP_CIPHER_CTX_ctrl EVP_CTRL_GCM_SET_IVLEN (int (length iv)) None)
       in if ret r = 0 then (Inr Null, snd s) else
       let (r, s) = (if aad \<noteq> []
                     then call P s (EVP_DecryptUpdate Nullptr (Some aad) (int (length aad)))
                     else (r, s))
       in if ret r = 0 then (Inr Null, snd s) else
       let (r, s) = call P s (EVP_DecryptUpdate (Buf 0) (Some data) cipherTextLength)
       in if ret r = 0 then (Inr Null, snd s) else
          if \<not> fits plainText 0 (int (length (written r))) then (Inl (OutOfBounds OutputBuf), snd s) else
       let plainTextLength = outl r;
           plainText = store plainText 0 (written r);
           (r, s) = call P s (EVP_CIPHER_CTX_ctrl EVP_CTRL_GCM_SET_TAG (int (length tag)) (Some tag))
       in if ret r = 0 then (Inr Null, snd s) else
       let (r, s) = call P s (EVP_DecryptFinal_ex (Buf 0))
       in if ret r = 0 then (Inr Null, snd s) else
          if \<not> fits plainText 0 (int (length (written r))) then (Inl (OutOfBounds OutputBuf), snd s) else
       let plainText = store plainText 0 (written r)
       in if \<not> fits plainText 0 plainTextLength then (Inl (OutOfBounds OutputBuf), snd s) else
          (Inr (Bytes (take (nat plainTextLength) plainText)), snd s))"

definition encrypt_aes_ccm ::
  "'c provider \<Rightarrow> bytes \<Rightarrow> bytes \<Rightarrow> bytes \<Rightarrow> bytes \<Rightarrow> bytes \<Rightarrow> EVP_CIPHER
     \<Rightarrow> (error + QByteArray \<times> bytes) \<times> trace" where
  "encrypt_aes_ccm P data key iv tag aad cipher =
    (case EVP_CIPHER_CTX_new P of
       None \<Rightarrow> (Inr (Null, tag), [])
     | Some en \<Rightarrow>
       let plainTextLength = int (length data);
           cipherText = new_buf (length data);
           (r, s) = call P (en, []) (EVP_EncryptInit_ex cipher key iv)
       in if ret r = 0 then (Inr (Null, tag), snd s) else
       let (r, s) = call P s (EVP_CIPHER_CTX_ctrl EVP_CTRL_CCM_SET_IVLEN (int (length iv)) None)
       in if ret r = 0 then (Inr (Null, tag), snd s) else
       let (r, s) = call P s (EVP_CIPHER_CTX_ctrl EVP_CTRL_CCM_SET_TAG (int (length tag)) None)
       in if ret r = 0 then (Inr (Null, tag), snd s) else
       let (r, s) = (if aad \<noteq> []
                     then call P s (EVP_EncryptUpdate Nullptr None plainTextLength)
                     else (r, s))
       in if ret r = 0 then (Inr (Null, tag), snd s) else
       let (r, s) = (if aad \<noteq> []
                     then call P s (EVP_EncryptUpdate Nullptr (Some aad) (int (length aad)))
                     else (r, s))
       in if ret r = 0 then (Inr (Null, tag), snd s) else
       let (r, s) = call P s (EVP_EncryptUpdate (Buf 0) (Some data) plainTextLength)
       in if ret r = 0 then (Inr (Null, tag), snd s) else
          if \<not> fits cipherText 0 (int (length (written r))) then (Inl (OutOfBounds OutputBuf), snd s) else
       let cipherTextLength = outl r;
           cipherText = store cipherText 0 (written r);
           (r, s) = call P s (EVP_EncryptFinal_ex (Buf 0))
       in if ret r = 0 then (Inr (Null, tag), snd s) else
          if \<not> fits cipherText 0 (int (length (written r))) then (Inl (OutOfBounds OutputBuf), snd s) else
       let cipherText = store cipherText 0 (written r);
           (r, s) = call P s (EVP_CIPHER_CTX_ctrl EVP_CTRL_CCM_GET_TAG (int (length tag)) (Some tag))
       in if ret r = 0 then (Inr (Null, tag), snd s) else
          if \<not> fits tag 0 (int (length (written r))) then (Inl (OutOfBounds TagBuf), snd s) else
          if \<not> fits cipherText 0 cipherTextLength then (Inl (OutOfBounds OutputBuf), snd s) else
          (Inr (Bytes (take (nat cipherTextLength) cipherText), store tag 0 (written r)), snd s))"

definition decrypt_aes_ccm ::
  "'c provider \<Rightarrow> bytes \<Rightarrow> bytes \<Rightarrow> bytes \<Rightarrow> bytes \<Rightarrow> bytes \<Rightarrow> EVP_CIPHER
     \<Rightarrow> (error + QByteArray) \<times> trace" where
  "decrypt_aes_ccm P data key iv tag aad cipher =
    (case EVP_CIPHER_CTX_new P of
       None \<Rightarrow> (Inr Null, [])
     | Some de \<Rightarrow>
       let cipherTextLength = int (length data);
           plainText = new_buf (length data);
           (r, s) = call P (de, []) (EVP_DecryptInit_ex cipher key iv)
       in if ret r = 0 then (Inr Null, snd s) else
       let (r, s) = call P s (EVP_CIPHER_CTX_ctrl EVP_CTRL_CCM_SET_IVLEN (int (length iv)) None)
       in if ret r = 0 then (Inr Null, snd s) else
       let (r, s) = call P s (EVP_CIPHER_CTX_ctrl EVP_CTRL_CCM_SET_TAG (int (length tag)) (Some tag))
       in if ret r = 0 then (Inr Null, snd s) else
       let (r, s) = (if aad \<noteq> []
                     then call P s (EVP_DecryptUpdate Nullptr None cipherTextLength)
                     else (r, s))
       in if ret r = 0 then (Inr Null, snd s) else
       let (r, s) = (if aad \<noteq> []
                     then call P s (EVP_DecryptUpdate Nullptr (Some aad) (int (length aad)))
                     else (r, s))
       in if ret r = 0 then (Inr Null, snd s) else
       let (r, s) = call P s (EVP_DecryptUpdate (Buf 0) (Some data) cipherTextLength)
       in if ret r = 0 then (Inr Null, snd s) else
          if \<not> fits plainText 0 (int (length (written r))) then (Inl (OutOfBounds OutputBuf), snd s) else
       let plainTextLength = outl r;
           plainText = store plainText 0 (written r);
           (r, s) = call P s (EVP_DecryptFinal_ex (Buf 0))
       in if ret r = 0 then (Inr Null, snd s) else
          if \<not> fits plainText 0 (int (length (written r))) then (Inl (OutOfBounds OutputBuf), snd s) else
       let plainText = store plainText 0 (written r)
       in if \<not> fits plainText 0 plainTextLength then (Inl (OutOfBounds OutputBuf), snd s) else
          (Inr (Bytes (take (nat plainTextLength) plainText)), snd s))"

section \<open>QBlockCipher\<close>

definition AES_BLOCK_SIZE :: int where
  "AES_BLOCK_SIZE = 16"

definition INT_MAX :: int where
  "INT_MAX = 2147483647"

text \<open>
  \<open>RAND_bytes(buf, num)\<close> takes the next \<open>num\<close> bytes of the secure generator, whose
  output is the sequence \<open>rng\<close>, and writes them to \<open>buf\<close>.
\<close>

definition RAND_bytes :: "(nat \<Rightarrow> byte) \<Rightarrow> nat \<Rightarrow> bytes" where
  "RAND_bytes rng num = map rng [0..<num]"

text \<open>
  \<open>size\<close> is a \<open>quint16\<close>, so \<open>sizeof(size)\<close> is 2: \<open>arr\<close> has two bytes and
  \<open>RAND_bytes\<close> fills those two. \<open>QByteArray(arr, size)\<close> then copies \<open>size\<close> bytes
  starting at \<open>arr\<close>. \<open>mem\<close> is the memory from the address of \<open>arr\<close> on, before the
  call: offsets 0 and 1 are \<open>arr\<close> itself, the offsets beyond are whatever follows it.
\<close>

definition sizeof_quint16 :: nat where
  "sizeof_quint16 = 2"

definition generateSalt :: "(nat \<Rightarrow> byte) \<Rightarrow> (nat \<Rightarrow> byte) \<Rightarrow> 16 word \<Rightarrow> bytes" where
  "generateSalt rng mem size' =
     (let arr = RAND_bytes rng sizeof_quint16;
          mem' = (\<lambda>i. if i < length arr then arr ! i else mem i)
      in map mem' [0..<unat size'])"

text \<open>
  \<open>key\<close> and \<open>iv\<close> are passed by reference; \<open>m_key\<close> and \<open>m_iv\<close> point into them and
  \<open>EVP_BytesToKey\<close> writes the derived material there, so a successful call returns the
  new contents of \<open>key\<close> and \<open>iv\<close> beside the output. \<open>data.size() + AES_BLOCK_SIZE\<close> is
  \<open>int\<close> arithmetic.
\<close>

definition encryptAesBlockCipher ::
  "'c provider \<Rightarrow> bytes \<Rightarrow> bytes \<Rightarrow> bytes \<Rightarrow> bytes \<Rightarrow> bytes \<Rightarrow> int
     \<Rightarrow> EVP_CIPHER \<Rightarrow> EVP_MD \<Rightarrow> (error + bytes \<times> bytes \<times> bytes) \<times> trace" where
  "encryptAesBlockCipher P data key iv password salt rounds cipher md =
    (case EVP_CIPHER_CTX_new P of
       None \<Rightarrow> (Inl (Thrown E_ctx_new), [])
     | Some encryptionCipher \<Rightarrow>
       if INT_MAX < int (length data) + AES_BLOCK_SIZE then (Inl IntOverflow, []) else
       let cipherTextLength = int (length data) + AES_BLOCK_SIZE;
           cipherText = new_buf (nat cipherTextLength);
           (n, key_out, iv_out) =
              EVP_BytesToKey P cipher md salt password (int (length password)) rounds
       in if n = 0 then (Inl (Thrown E_bytes_to_key), []) else
          if \<not> fits key 0 (int (length key_out)) then (Inl (OutOfBounds KeyBuf), []) else
          if \<not> fits iv 0 (int (length iv_out)) then (Inl (OutOfBounds IvBuf), []) else
       let m_key = store key 0 key_out;
           m_iv = store iv 0 iv_out;
           (r, s) = call P (encryptionCipher, []) (EVP_EncryptInit_ex cipher m_key m_iv)
       in if ret r = 0 then (Inl (Thrown E_init), snd s) else
       let (r, s) = call P s (EVP_EncryptUpdate (Buf 0) (Some data) (int (length data)))
       in if ret r = 0 then (Inl (Thrown E_update), snd s) else
          if \<not> fits cipherText 0 (int (length (written r))) then (Inl (OutOfBounds OutputBuf), snd s) else
       let cipherTextLength = outl r;
           cipherText = store cipherText 0 (written r);
           (r, s) = call P s (EVP_EncryptFinal (Buf cipherTextLength))
       in if ret r = 0 then (Inl (Thrown E_final), snd s) else
          if \<not> fits cipherText cipherTextLength (int (length (written r)))
          then (Inl (OutOfBounds OutputBuf), snd s) else
       let finalLength = outl r;
           cipherText = store cipherText cipherTextLength (written r)
       in if \<not> fits cipherText 0 (cipherTextLength + finalLength)
          then (Inl (OutOfBounds OutputBuf), snd s) else
          (Inr (take (nat (cipherTextLength + finalLength)) cipherText, m_key, m_iv), snd s))"

definition decryptAesBlockCipher ::
  "'c provider \<Rightarrow> bytes \<Rightarrow> bytes \<Rightarrow> bytes \<Rightarrow> bytes \<Rightarrow> bytes \<Rightarrow> int
     \<Rightarrow> EVP_CIPHER \<Rightarrow> EVP_MD \<Rightarrow> (error + bytes \<times> bytes \<times> bytes) \<times> trace" where
  "decryptAesBlockCipher P data key iv password salt rounds cipher md =
    (case EVP_CIPHER_CTX_new P of
       None \<Rightarrow> (Inl (Thrown E_ctx_new), [])
     | Some decryptionCipher \<Rightarrow>
       let plainTextLength = int (length data)
       in if INT_MAX < plainTextLength + AES_BLOCK_SIZE then (Inl IntOverflow, []) else
       let plainText = new_buf (nat (plainTextLength + AES_BLOCK_SIZE));
           (n, key_out, iv_out) =
              EVP_BytesToKey P cipher md salt password (int (length password)) rounds
       in if n = 0 then (Inl (Thrown E_bytes_to_key), []) else
          if \<not> fits key 0 (int (length key_out)) then (Inl (OutOfBounds KeyBuf), []) else
          if \<not> fits iv 0 (int (length iv_out)) then (Inl (OutOfBounds IvBuf), []) else
       let m_key = store key 0 key_out;
           m_iv = store iv 0 iv_out;
           (r, s) = call P (decryptionCipher, []) (EVP_DecryptInit_ex cipher m_key m_iv)
       in if ret r = 0 then (Inl (Thrown E_init), snd s) else
       let (r, s) = call P s (EVP_DecryptUpdate (Buf 0) (Some data) (int (length data)))
       in if ret r = 0 then (Inl (Thrown E_update), snd s) else
          if \<not> fits plainText 0 (int (length (written r))) then (Inl (OutOfBounds OutputBuf), snd s) else
       let plainTextLength = outl r;
           plainText = store plainText 0 (written r);
           (r, s) = call P s (EVP_DecryptFinal (Buf plainTextLength))
       in if ret r = 0 then (Inl (Thrown E_final), snd s) else
          if \<not> fits plainText plainTextLength (int (length (written r)))
          then (Inl (OutOfBounds OutputBuf), snd s) else
       let finalLength = outl r;
           plainText = store plainText plainTextLength (written r)
       in if \<not> fits plainText 0 (plainTextLength + finalLength)
          then (Inl (OutOfBounds OutputBuf), snd s) else
          (Inr (take (nat (plainTextLength + finalLength)) plainText, m_key, m_iv), snd s))"

section \<open>The provider capability\<close>

text \<open>
  Modelled from the spec: the cryptographic provider's cipher context for the AEAD modes
  (init, control, update, finalize), which the repository calls but does not contain. The
  cipher itself stays abstract: \<open>keystream\<close> gives the byte that is XORed onto position
  \<open>i\<close> of the message under a cipher, key and nonce (GCM and CCM are stream-like, so the
  output is as long as the input), and \<open>mac\<close> gives byte \<open>i\<close> of the authentication tag
  over the associated data and the plaintext.
\<close>

record aead_prims =
  keystream :: "EVP_CIPHER \<Rightarrow> bytes \<Rightarrow> bytes \<Rightarrow> nat \<Rightarrow> byte"
  mac :: "EVP_CIPHER \<Rightarrow> bytes \<Rightarrow> bytes \<Rightarrow> bytes \<Rightarrow> bytes \<Rightarrow> nat \<Rightarrow> byte"

definition xor_stream :: "(nat \<Rightarrow> byte) \<Rightarrow> bytes \<Rightarrow> bytes" where
  "xor_stream ks bs = map (\<lambda>i. bs ! i XOR ks i) [0..<length bs]"

definition tag_bytes :: "(nat \<Rightarrow> byte) \<Rightarrow> nat \<Rightarrow> bytes" where
  "tag_bytes m n = map m [0..<n]"

fun key_length :: "EVP_CIPHER \<Rightarrow> nat" where
  "key_length (EVP_aes AES128 m) = 16"
| "key_length (EVP_aes AES192 m) = 24"
| "key_length (EVP_aes AES256 m) = 32"

fun mode_of :: "EVP_CIPHER \<Rightarrow> cipher_mode" where
  "mode_of (EVP_aes b m) = m"

text \<open>
  The context: the cipher once initialised, the direction, key and nonce, the nonce and
  tag lengths set by control calls, the total length declared for CCM, the associated
  data fed so far, the plaintext once the data update has run, the expected tag installed
  for decryption, and whether finalize has succeeded.
\<close>

record evp_ctx =
  ctx_cipher :: "EVP_CIPHER option"
  ctx_encrypting :: bool
  ctx_key :: bytes
  ctx_iv :: bytes
  ctx_ivlen :: int
  ctx_taglen :: int
  ctx_total :: "int option"
  ctx_aad :: bytes
  ctx_msg :: "bytes option"
  ctx_expected :: "bytes option"
  ctx_final :: bool

definition fresh_ctx :: evp_ctx where
  "fresh_ctx = \<lparr>ctx_cipher = None, ctx_encrypting = False, ctx_key = [], ctx_iv = [],
     ctx_ivlen = 12, ctx_taglen = 12, ctx_total = None, ctx_aad = [], ctx_msg = None,
     ctx_expected = None, ctx_final = False\<rparr>"

definition succeeded :: "int \<Rightarrow> bytes \<Rightarrow> evp_ret" where
  "succeeded n bs = \<lparr>ret = 1, outl = n, written = bs\<rparr>"

definition failed :: evp_ret where
  "failed = \<lparr>ret = 0, outl = 0, written = []\<rparr>"

text \<open>
  Init rejects a cipher that is not an AEAD mode and a key whose length is not the
  algorithm's key size.
\<close>

definition aead_init :: "evp_ctx \<Rightarrow> bool \<Rightarrow> EVP_CIPHER \<Rightarrow> bytes \<Rightarrow> bytes \<Rightarrow> evp_ret \<times> evp_ctx" where
  "aead_init ctx enc c k iv =
     (if (mode_of c = GCM \<or> mode_of c = CCM) \<and> length k = key_length c
      then (succeeded 0 [],
            fresh_ctx\<lparr>ctx_cipher := Some c, ctx_encrypting := enc, ctx_key := k, ctx_iv := iv\<rparr>)
      else (failed, ctx))"

text \<open>
  Control calls. A nonce length must be positive for GCM and between 7 and 13 for CCM. A tag
  is 1 to 16 bytes for GCM and an even number of bytes from 4 to 16 for CCM. Setting a tag
  on a GCM context installs the expected tag and is for decryption only; on a CCM
  context it fixes the tag length and, with a pointer, installs the expected tag, before
  any data. Getting the tag needs an encrypting context that has been finalized.
\<close>

definition ccm_tag_length :: "int \<Rightarrow> bool" where
  "ccm_tag_length n \<longleftrightarrow> 4 \<le> n \<and> n \<le> 16 \<and> even n"

definition aead_set_ivlen :: "evp_ctx \<Rightarrow> EVP_CIPHER \<Rightarrow> int \<Rightarrow> evp_ret \<times> evp_ctx" where
  "aead_set_ivlen ctx c n =
     (if (mode_of c = GCM \<and> 0 < n) \<or> (mode_of c = CCM \<and> 7 \<le> n \<and> n \<le> 13)
      then (succeeded 0 [], ctx\<lparr>ctx_ivlen := n\<rparr>)
      else (failed, ctx))"

definition aead_set_tag :: "evp_ctx \<Rightarrow> EVP_CIPHER \<Rightarrow> int \<Rightarrow> bytes option \<Rightarrow> evp_ret \<times> evp_ctx" where
  "aead_set_tag ctx c n p =
     (if mode_of c = GCM then
        (case p of
           Some t \<Rightarrow>
             if \<not> ctx_encrypting ctx \<and> 1 \<le> n \<and> n \<le> 16 \<and> n \<le> int (length t)
             then (succeeded 0 [], ctx\<lparr>ctx_taglen := n, ctx_expected := Some (take (nat n) t)\<rparr>)
             else (failed, ctx)
         | None \<Rightarrow> (failed, ctx))
      else
        (case p of
           Some t \<Rightarrow>
             if \<not> ctx_encrypting ctx \<and> ccm_tag_length n \<and> n \<le> int (length t) \<and> ctx_msg ctx = None
             then (succeeded 0 [], ctx\<lparr>ctx_taglen := n, ctx_expected := Some (take (nat n) t)\<rparr>)
             else (failed, ctx)
         | None \<Rightarrow>
             if ccm_tag_length n \<and> ctx_msg ctx = None
             then (succeeded 0 [], ctx\<lparr>ctx_taglen := n\<rparr>)
             else (failed, ctx)))"

definition aead_get_tag ::
  "aead_prims \<Rightarrow> evp_ctx \<Rightarrow> EVP_CIPHER \<Rightarrow> int \<Rightarrow> bytes option \<Rightarrow> evp_ret \<times> evp_ctx" where
  "aead_get_tag A ctx c n p =
     (case ctx_msg ctx of
        Some m \<Rightarrow>
          if ctx_encrypting ctx \<and> ctx_final ctx \<and> p \<noteq> None
             \<and> (if mode_of c = GCM then 1 \<le> n \<and> n \<le> 16 else n = ctx_taglen ctx)
          then (succeeded 0 (tag_bytes (mac A c (ctx_key ctx) (ctx_iv ctx) (ctx_aad ctx) m) (nat n)), ctx)
          else (failed, ctx)
      | None \<Rightarrow> (failed, ctx))"

fun aead_ctrl :: "aead_prims \<Rightarrow> evp_ctx \<Rightarrow> EVP_CIPHER \<Rightarrow> ctrl_type \<Rightarrow> int \<Rightarrow> bytes option
     \<Rightarrow> evp_ret \<times> evp_ctx" where
  "aead_ctrl A ctx c EVP_CTRL_GCM_SET_IVLEN n p = aead_set_ivlen ctx c n"
| "aead_ctrl A ctx c EVP_CTRL_CCM_SET_IVLEN n p = aead_set_ivlen ctx c n"
| "aead_ctrl A ctx c EVP_CTRL_GCM_SET_TAG n p = aead_set_tag ctx c n p"
| "aead_ctrl A ctx c EVP_CTRL_CCM_SET_TAG n p = aead_set_tag ctx c n p"
| "aead_ctrl A ctx c EVP_CTRL_GCM_GET_TAG n p = aead_get_tag A ctx c n p"
| "aead_ctrl A ctx c EVP_CTRL_CCM_GET_TAG n p = aead_get_tag A ctx c n p"

text \<open>
  Update. With no output buffer it consumes no message bytes: without input it declares
  the total message length (CCM only), with input it feeds associated data, which CCM
  accepts only after the length was declared. With an output buffer it transforms the whole
  message in one call and reports as many bytes as it was given; CCM refuses a message
  whose length differs from the declared one.
\<close>

definition aead_update ::
  "aead_prims \<Rightarrow> evp_ctx \<Rightarrow> EVP_CIPHER \<Rightarrow> out_ptr \<Rightarrow> bytes option \<Rightarrow> int \<Rightarrow> evp_ret \<times> evp_ctx" where
  "aead_update A ctx c out inp n =
     (if ctx_msg ctx \<noteq> None \<or> n < 0 then (failed, ctx) else
      case (out, inp) of
        (Nullptr, None) \<Rightarrow>
          if mode_of c = CCM then (succeeded n [], ctx\<lparr>ctx_total := Some n\<rparr>) else (failed, ctx)
      | (Nullptr, Some a) \<Rightarrow>
          if int (length a) < n \<or> (mode_of c = CCM \<and> ctx_total ctx = None) then (failed, ctx)
          else (succeeded n [], ctx\<lparr>ctx_aad := ctx_aad ctx @ take (nat n) a\<rparr>)
      | (Buf off, None) \<Rightarrow> (failed, ctx)
      | (Buf off, Some d) \<Rightarrow>
          if int (length d) < n \<or> (ctx_total ctx \<noteq> None \<and> ctx_total ctx \<noteq> Some n) then (failed, ctx)
          else let x = take (nat n) d;
                   y = xor_stream (keystream A c (ctx_key ctx) (ctx_iv ctx)) x
               in (succeeded n y, ctx\<lparr>ctx_msg := Some (if ctx_encrypting ctx then x else y)\<rparr>))"

text \<open>
  Finalize emits no bytes. When encrypting it completes the tag; when decrypting it
  performs the authentication check: it succeeds only if an expected tag was installed
  and equals the tag computed over the associated data and the recovered plaintext.
\<close>

definition aead_final :: "aead_prims \<Rightarrow> evp_ctx \<Rightarrow> EVP_CIPHER \<Rightarrow> evp_ret \<times> evp_ctx" where
  "aead_final A ctx c =
     (case ctx_msg ctx of
        None \<Rightarrow> (failed, ctx)
      | Some m \<Rightarrow>
          if ctx_encrypting ctx then (succeeded 0 [], ctx\<lparr>ctx_final := True\<rparr>)
          else (case ctx_expected ctx of
                  None \<Rightarrow> (failed, ctx)
                | Some t \<Rightarrow>
                    if t = tag_bytes (mac A c (ctx_key ctx) (ctx_iv ctx) (ctx_aad ctx) m) (length t)
                    then (succeeded 0 [], ctx\<lparr>ctx_final := True\<rparr>)
                    else (failed, ctx)))"

fun aead_step :: "aead_prims \<Rightarrow> evp_ctx \<Rightarrow> evp_call \<Rightarrow> evp_ret \<times> evp_ctx" where
  "aead_step A ctx (EVP_EncryptInit_ex c k iv) = aead_init ctx True c k iv"
| "aead_step A ctx (EVP_DecryptInit_ex c k iv) = aead_init ctx False c k iv"
| "aead_step A ctx (EVP_CIPHER_CTX_ctrl t n p) =
     (case ctx_cipher ctx of None \<Rightarrow> (failed, ctx) | Some c \<Rightarrow> aead_ctrl A ctx c t n p)"
| "aead_step A ctx (EVP_EncryptUpdate out inp n) =
     (case ctx_cipher ctx of
        None \<Rightarrow> (failed, ctx)
      | Some c \<Rightarrow> if ctx_encrypting ctx then aead_update A ctx c out inp n else (failed, ctx))"
| "aead_step A ctx (EVP_DecryptUpdate out inp n) =
     (case ctx_cipher ctx of
        None \<Rightarrow> (failed, ctx)
      | Some c \<Rightarrow> if ctx_encrypting ctx then (failed, ctx) else aead_update A ctx c out inp n)"
| "aead_step A ctx (EVP_EncryptFinal_ex out) =
     (case ctx_cipher ctx of
        None \<Rightarrow> (failed, ctx)
      | Some c \<Rightarrow> if ctx_encrypting ctx then aead_final A ctx c else (failed, ctx))"
| "aead_step A ctx (EVP_DecryptFinal_ex out) =
     (case ctx_cipher ctx of
        None \<Rightarrow> (failed, ctx)
      | Some c \<Rightarrow> if ctx_encrypting ctx then (failed, ctx) else aead_final A ctx c)"
| "aead_step A ctx (EVP_EncryptFinal out) =
     (case ctx_cipher ctx of
        None \<Rightarrow> (failed, ctx)
      | Some c \<Rightarrow> if ctx_encrypting ctx then aead_final A ctx c else (failed, ctx))"
| "aead_step A ctx (EVP_DecryptFinal out) =
     (case ctx_cipher ctx of
        None \<Rightarrow> (failed, ctx)
      | Some c \<Rightarrow> if ctx_encrypting ctx then (failed, ctx) else aead_final A ctx c)"

definition aead_provider :: "aead_prims \<Rightarrow> evp_ctx provider" where
  "aead_provider A =
     \<lparr>EVP_CIPHER_CTX_new = Some fresh_ctx, evp = aead_step A,
      EVP_BytesToKey = (\<lambda>c md salt pw n rounds. (0, [], []))\<rparr>"

text \<open>
  The parameters the provider accepts for a GCM and for a CCM operation: the key has the
  algorithm's size, the nonce length is in range and the tag length is one the mode allows.
\<close>

definition gcm_valid :: "EVP_CIPHER \<Rightarrow> bytes \<Rightarrow> bytes \<Rightarrow> bytes \<Rightarrow> bool" where
  "gcm_valid cipher key iv tag \<longleftrightarrow>
     mode_of cipher = GCM \<and> length key = key_length cipher \<and> iv \<noteq> []
       \<and> 1 \<le> length tag \<and> length tag \<le> 16"

definition ccm_valid :: "EVP_CIPHER \<Rightarrow> bytes \<Rightarrow> bytes \<Rightarrow> bytes \<Rightarrow> bool" where
  "ccm_valid cipher key iv tag \<longleftrightarrow>
     mode_of cipher = CCM \<and> length key = key_length cipher \<and> 7 \<le> length iv \<and> length iv \<le> 13
       \<and> ccm_tag_length (int (length tag))"

text \<open>
  A concrete instance of the abstract cipher, small enough to evaluate: the key stream
  byte and the tag byte are XOR checksums.
\<close>

definition xor_sum :: "bytes \<Rightarrow> byte" where
  "xor_sum bs = fold (XOR) bs 0"

definition toy_prims :: aead_prims where
  "toy_prims = \<lparr>keystream = (\<lambda>c k iv i. xor_sum (k @ iv) XOR of_nat i),
                 mac = (\<lambda>c k iv aad msg i. xor_sum (k @ iv @ aad @ msg))\<rparr>"


subsection \<open>A provider for the padded block modes\<close>

text \<open>
  A small provider that behaves as a padded block mode does, used to exercise the block
  cipher functions: update emits whole 16-byte blocks and holds the rest back, finalize
  emits the padded last block when encrypting and strips the padding when decrypting
  (failing on malformed padding). Its context is the direction, a key byte that is XORed
  onto every byte, and the bytes held back.
\<close>

type_synonym block_ctx = "bool \<times> byte \<times> bytes"

definition first_byte :: "bytes \<Rightarrow> byte" where
  "first_byte k = (case k of [] \<Rightarrow> 0 | b # bs \<Rightarrow> b)"

definition block_encrypt_update :: "block_ctx \<Rightarrow> bytes \<Rightarrow> evp_ret \<times> block_ctx" where
  "block_encrypt_update ctx d =
     (case ctx of (enc, kb, held) \<Rightarrow>
        let x = held @ d; m = 16 * (length x div 16)
        in (succeeded (int m) (map ((XOR) kb) (take m x)), (enc, kb, drop m x)))"

definition block_encrypt_final :: "block_ctx \<Rightarrow> evp_ret \<times> block_ctx" where
  "block_encrypt_final ctx =
     (case ctx of (enc, kb, held) \<Rightarrow>
        let x = take 16 (held @ replicate (16 - length held) (of_nat (16 - length held)))
        in (succeeded 16 (map ((XOR) kb) x), (enc, kb, [])))"

definition block_decrypt_update :: "block_ctx \<Rightarrow> bytes \<Rightarrow> evp_ret \<times> block_ctx" where
  "block_decrypt_update ctx d =
     (case ctx of (enc, kb, held) \<Rightarrow>
        let x = held @ d; m = 16 * ((length x - 1) div 16)
        in (succeeded (int m) (map ((XOR) kb) (take m x)), (enc, kb, drop m x)))"

definition block_decrypt_final :: "block_ctx \<Rightarrow> evp_ret \<times> block_ctx" where
  "block_decrypt_final ctx =
     (case ctx of (enc, kb, held) \<Rightarrow>
        let p = map ((XOR) kb) held; k = unat (last p)
        in if length held = 16 \<and> 1 \<le> k \<and> k \<le> 16 \<and> drop (16 - k) p = replicate k (last p)
           then (succeeded (int (16 - k)) (take (16 - k) p), (enc, kb, []))
           else (failed, ctx))"

fun block_step :: "block_ctx \<Rightarrow> evp_call \<Rightarrow> evp_ret \<times> block_ctx" where
  "block_step ctx (EVP_EncryptInit_ex c k iv) = (succeeded 0 [], (True, first_byte k, []))"
| "block_step ctx (EVP_DecryptInit_ex c k iv) = (succeeded 0 [], (False, first_byte k, []))"
| "block_step ctx (EVP_EncryptUpdate out (Some d) n) =
     (if fst ctx \<and> 0 \<le> n \<and> n \<le> int (length d)
      then block_encrypt_update ctx (take (nat n) d) else (failed, ctx))"
| "block_step ctx (EVP_DecryptUpdate out (Some d) n) =
     (if \<not> fst ctx \<and> 0 \<le> n \<and> n \<le> int (length d)
      then block_decrypt_update ctx (take (nat n) d) else (failed, ctx))"
| "block_step ctx (EVP_EncryptFinal out) = (if fst ctx then block_encrypt_final ctx else (failed, ctx))"
| "block_step ctx (EVP_DecryptFinal out) = (if fst ctx then (failed, ctx) else block_decrypt_final ctx)"
| "block_step ctx c = (failed, ctx)"

definition block_bytes_to_key ::
  "EVP_CIPHER \<Rightarrow> EVP_MD \<Rightarrow> bytes \<Rightarrow> bytes \<Rightarrow> int \<Rightarrow> int \<Rightarrow> int \<times> bytes \<times> bytes" where
  "block_bytes_to_key c md salt pw n rounds =
     (int (key_length c),
      replicate (key_length c) (xor_sum (take (nat n) pw @ salt) + of_int rounds),
      replicate 16 (xor_sum (salt @ take (nat n) pw) + 1))"

definition block_provider :: "block_ctx provider" where
  "block_provider =
     \<lparr>EVP_CIPHER_CTX_new = Some (False, 0, []), evp = block_step,
      EVP_BytesToKey = block_bytes_to_key\<rparr>"

section \<open>What the claims speak of\<close>

text \<open>A step of an operation failed: no context could be created, or a call returned 0.\<close>

definition step_failed :: "'c provider \<Rightarrow> trace \<Rightarrow> bool" where
  "step_failed P tr \<longleftrightarrow> EVP_CIPHER_CTX_new P = None \<or> (\<exists>(c, r) \<in> set tr. ret r = 0)"



text \<open>
  Tampering as the specification's tamper test does it: flipping bit \<open>i\<close> of a byte
  sequence is flipping bit \<open>i mod 8\<close> of byte \<open>i div 8\<close>, in the ciphertext, the tag or
  the associated data.
\<close>

definition flip :: "bytes \<Rightarrow> nat \<Rightarrow> bytes" where
  "flip bs i = bs[i div 8 := flip_bit (i mod 8) (bs ! (i div 8))]"





text \<open>
  The provider's share of the buffer contract, read off a trace: a successful update
  or finalize wrote the bytes it reports, an update at most as many as it was given and
  a finalize at most one block.
\<close>

definition emits_within :: "trace \<Rightarrow> bool" where
  "emits_within tr \<longleftrightarrow>
     (\<forall>(c, r) \<in> set tr. ret r \<noteq> 0 \<longrightarrow>
        (case c of
           EVP_EncryptUpdate out inp n \<Rightarrow> int (length (written r)) = outl r \<and> 0 \<le> outl r \<and> outl r \<le> n
         | EVP_DecryptUpdate out inp n \<Rightarrow> int (length (written r)) = outl r \<and> 0 \<le> outl r \<and> outl r \<le> n
         | EVP_EncryptFinal out \<Rightarrow> int (length (written r)) = outl r \<and> 0 \<le> outl r \<and> outl r \<le> AES_BLOCK_SIZE
         | EVP_DecryptFinal out \<Rightarrow> int (length (written r)) = outl r \<and> 0 \<le> outl r \<and> outl r \<le> AES_BLOCK_SIZE
         | _ \<Rightarrow> True))"

text \<open>
  For the stream-like AEAD modes: a successful update reports as many bytes as it was
  given, and a successful get-tag control writes as many bytes as it was asked for.
\<close>

definition stream_like :: "trace \<Rightarrow> bool" where
  "stream_like tr \<longleftrightarrow>
     (\<forall>(c, r) \<in> set tr. ret r \<noteq> 0 \<longrightarrow>
        (case c of
           EVP_EncryptUpdate out inp n \<Rightarrow> outl r = n
         | EVP_CIPHER_CTX_ctrl t n p \<Rightarrow>
             (t = EVP_CTRL_GCM_GET_TAG \<or> t = EVP_CTRL_CCM_GET_TAG) \<longrightarrow> int (length (written r)) = n
         | _ \<Rightarrow> True))"



section \<open>Buffers and the abstract cipher\<close>

lemma length_new_buf [simp]: "length (new_buf n) = n"
  by (simp add: new_buf_def)

lemma length_store [simp]:
  "fits buf off (int (length bs)) \<Longrightarrow> length (store buf off bs) = length buf"
  by (auto simp: fits_def store_def)

lemma fits_store [simp]:
  "fits buf off (int (length bs)) \<Longrightarrow> fits (store buf off bs) off' n = fits buf off' n"
  by (simp add: fits_def)

lemma store_whole: "length bs = length buf \<Longrightarrow> store buf 0 bs = bs"
  by (simp add: store_def)

lemma store_nothing [simp]: "store buf off [] = buf"
  by (simp add: store_def)

lemma length_take_fits [simp]: "fits buf 0 n \<Longrightarrow> int (length (take (nat n) buf)) = n"
  by (auto simp: fits_def)

lemma fits_empty [simp]: "fits [] 0 n \<longleftrightarrow> n = 0"
  by (auto simp: fits_def)

lemma length_xor_stream [simp]: "length (xor_stream ks bs) = length bs"
  by (simp add: xor_stream_def)

text \<open>Applying the key stream twice gives the input back.\<close>

lemma xor_stream_involution [simp]: "xor_stream ks (xor_stream ks bs) = bs"
  by (rule nth_equalityI) (simp_all add: xor_stream_def xor.assoc)

lemma length_tag_bytes [simp]: "length (tag_bytes m n) = n"
  by (simp add: tag_bytes_def)

lemma length_flip [simp]: "length (flip bs i) = length bs"
  by (simp add: flip_def)



section \<open>A failed step\<close>

text \<open>
  Whatever the provider does: once a call has returned 0, the \<open>QAead\<close> functions throw
  and the \<open>AuthenticatedEncryption\<close> functions return the null array.
\<close>

lemma decryptAesGcm_failed_step:
  assumes "decryptAesGcm P data key iv tag aad cipher = (res, tr)" and "step_failed P tr"
  shows "\<exists>e. res = Inl (Thrown e)"
  using assms
  by (auto simp: decryptAesGcm_def step_failed_def call_def Let_def
           split: option.splits prod.splits if_splits)

lemma decryptAesCcm_failed_step:
  assumes "decryptAesCcm P data key iv tag aad cipher = (res, tr)" and "step_failed P tr"
  shows "\<exists>e. res = Inl (Thrown e)"
  using assms
  by (auto simp: decryptAesCcm_def step_failed_def call_def Let_def
           split: option.splits prod.splits if_splits)

lemma decrypt_aes_gcm_failed_step:
  assumes "decrypt_aes_gcm P data key iv tag aad cipher = (res, tr)" and "step_failed P tr"
  shows "res = Inr Null"
  using assms
  by (auto simp: decrypt_aes_gcm_def step_failed_def call_def Let_def
           split: option.splits prod.splits if_splits)

lemma decrypt_aes_ccm_failed_step:
  assumes "decrypt_aes_ccm P data key iv tag aad cipher = (res, tr)" and "step_failed P tr"
  shows "res = Inr Null"
  using assms
  by (auto simp: decrypt_aes_ccm_def step_failed_def call_def Let_def
           split: option.splits prod.splits if_splits)

lemma encrypt_aes_gcm_failed_step:
  assumes "encrypt_aes_gcm P data key iv tag aad cipher = (res, tr)" and "step_failed P tr"
  shows "res = Inr (Null, tag)"
  using assms
  by (auto simp: encrypt_aes_gcm_def step_failed_def call_def Let_def
           split: option.splits prod.splits if_splits)

lemma encrypt_aes_ccm_failed_step:
  assumes "encrypt_aes_ccm P data key iv tag aad cipher = (res, tr)" and "step_failed P tr"
  shows "res = Inr (Null, tag)"
  using assms
  by (auto simp: encrypt_aes_ccm_def step_failed_def call_def Let_def
           split: option.splits prod.splits if_splits)

text \<open>
  C4. If any step of an AEAD decryption fails, the finalize step that authenticates
  included, the operation hands no plaintext bytes to the caller: the \<open>QAead\<close> functions
  throw, the \<open>AuthenticatedEncryption\<close> functions return the null array
  \<open>QByteArray()\<close>, and the plaintext an earlier update wrote into the buffer is
  dropped. This holds for every provider.
\<close>

theorem failed_decryption_returns_no_plaintext:
  assumes "step_failed P tr"
  shows "(decryptAesGcm P data key iv tag aad cipher = (res, tr) \<longrightarrow> (\<exists>e. res = Inl (Thrown e)))
       \<and> (decryptAesCcm P data key iv tag aad cipher = (res, tr) \<longrightarrow> (\<exists>e. res = Inl (Thrown e)))
       \<and> (decrypt_aes_gcm P data key iv tag aad cipher = (res', tr) \<longrightarrow> res' = Inr Null)
       \<and> (decrypt_aes_ccm P data key iv tag aad cipher = (res', tr) \<longrightarrow> res' = Inr Null)"
proof (intro conjI impI)
  assume "decryptAesGcm P data key iv tag aad cipher = (res, tr)"
  then show "\<exists>e. res = Inl (Thrown e)"
    using assms by (rule decryptAesGcm_failed_step)
next
  assume "decryptAesCcm P data key iv tag aad cipher = (res, tr)"
  then show "\<exists>e. res = Inl (Thrown e)"
    using assms by (rule decryptAesCcm_failed_step)
next
  assume "decrypt_aes_gcm P data key iv tag aad cipher = (res', tr)"
  then show "res' = Inr Null"
    using assms by (rule decrypt_aes_gcm_failed_step)
next
  assume "decrypt_aes_ccm P data key iv tag aad cipher = (res', tr)"
  then show "res' = Inr Null"
    using assms by (rule decrypt_aes_ccm_failed_step)
qed

text \<open>
  The run of the specification's scenario (a 32-byte key of 0xAA, a 12-byte nonce of
  0x01, the associated data "ctx") on the ciphertext of "hello aead" with a wrong tag:
  the data update writes ten plaintext bytes, finalize returns 0, and nothing but the
  failure comes back.
\<close>

theorem failed_decryption_returns_no_plaintext_witness:
  "step_failed (aead_provider toy_prims)
     (snd (decryptAesGcm (aead_provider toy_prims) [104, 100, 110, 111, 107, 37, 103, 98, 105, 109]
        (replicate 32 170) (replicate 12 1) (replicate 16 11) [99, 116, 120] (EVP_aes AES256 GCM)))
   \<and> (\<exists>e. fst (decryptAesGcm (aead_provider toy_prims) [104, 100, 110, 111, 107, 37, 103, 98, 105, 109]
        (replicate 32 170) (replicate 12 1) (replicate 16 11) [99, 116, 120] (EVP_aes AES256 GCM))
        = Inl (Thrown e))
   \<and> (EVP_DecryptUpdate (Buf 0) (Some [104, 100, 110, 111, 107, 37, 103, 98, 105, 109]) 10,
        \<lparr>ret = 1, outl = 10, written = [104, 101, 108, 108, 111, 32, 97, 101, 97, 100]\<rparr>)
      \<in> set (snd (decryptAesGcm (aead_provider toy_prims) [104, 100, 110, 111, 107, 37, 103, 98, 105, 109]
        (replicate 32 170) (replicate 12 1) (replicate 16 11) [99, 116, 120] (EVP_aes AES256 GCM)))"
proof -
  let ?run = "decryptAesGcm (aead_provider toy_prims) [104, 100, 110, 111, 107, 37, 103, 98, 105, 109]
        (replicate 32 170) (replicate 12 1) (replicate 16 11) [99, 116, 120] (EVP_aes AES256 GCM)"
  have failed: "step_failed (aead_provider toy_prims) (snd ?run)"
    by code_simp
  have update: "(EVP_DecryptUpdate (Buf 0) (Some [104, 100, 110, 111, 107, 37, 103, 98, 105, 109]) 10,
        \<lparr>ret = 1, outl = 10, written = [104, 101, 108, 108, 111, 32, 97, 101, 97, 100]\<rparr>) \<in> set (snd ?run)"
    by code_simp
  from failed_decryption_returns_no_plaintext [OF failed, of _ _ _ _ _ _ "fst ?run"]
  have "\<exists>e. fst ?run = Inl (Thrown e)"
    by simp
  with failed update show ?thesis
    by blast
qed

section \<open>Null and empty\<close>

text \<open>
  What an \<open>AuthenticatedEncryption\<close> function returns is null exactly when a step
  failed, and on an empty input it has no bytes either way: the output buffer of an
  empty input has no room.
\<close>

lemma new_buf_0 [simp]: "new_buf 0 = []"
  by (simp add: new_buf_def)

lemma encrypt_aes_gcm_null:
  assumes "encrypt_aes_gcm P data key iv tag aad cipher = (Inr (out, tag'), tr)"
  shows "isNull out \<longleftrightarrow> step_failed P tr"
  using assms
  by (auto simp: encrypt_aes_gcm_def step_failed_def call_def Let_def
           split: option.splits prod.splits if_splits)

lemma encrypt_aes_ccm_null:
  assumes "encrypt_aes_ccm P data key iv tag aad cipher = (Inr (out, tag'), tr)"
  shows "isNull out \<longleftrightarrow> step_failed P tr"
  using assms
  by (auto simp: encrypt_aes_ccm_def step_failed_def call_def Let_def
           split: option.splits prod.splits if_splits)

lemma decrypt_aes_gcm_null:
  assumes "decrypt_aes_gcm P data key iv tag aad cipher = (Inr out, tr)"
  shows "isNull out \<longleftrightarrow> step_failed P tr"
  using assms
  by (auto simp: decrypt_aes_gcm_def step_failed_def call_def Let_def
           split: option.splits prod.splits if_splits)

lemma decrypt_aes_ccm_null:
  assumes "decrypt_aes_ccm P data key iv tag aad cipher = (Inr out, tr)"
  shows "isNull out \<longleftrightarrow> step_failed P tr"
  using assms
  by (auto simp: decrypt_aes_ccm_def step_failed_def call_def Let_def
           split: option.splits prod.splits if_splits)

lemma encrypt_aes_gcm_empty:
  assumes "encrypt_aes_gcm P [] key iv tag aad cipher = (Inr (out, tag'), tr)"
  shows "bytes_of out = []"
  using assms
  by (auto simp: encrypt_aes_gcm_def call_def Let_def
           split: option.splits prod.splits if_splits)

lemma encrypt_aes_ccm_empty:
  assumes "encrypt_aes_ccm P [] key iv tag aad cipher = (Inr (out, tag'), tr)"
  shows "bytes_of out = []"
  using assms
  by (auto simp: encrypt_aes_ccm_def call_def Let_def
           split: option.splits prod.splits if_splits)

lemma decrypt_aes_gcm_empty:
  assumes "decrypt_aes_gcm P [] key iv tag aad cipher = (Inr out, tr)"
  shows "bytes_of out = []"
  using assms
  by (auto simp: decrypt_aes_gcm_def call_def Let_def
           split: option.splits prod.splits if_splits)

lemma decrypt_aes_ccm_empty:
  assumes "decrypt_aes_ccm P [] key iv tag aad cipher = (Inr out, tr)"
  shows "bytes_of out = []"
  using assms
  by (auto simp: decrypt_aes_ccm_def call_def Let_def
           split: option.splits prod.splits if_splits)

text \<open>
  C10, as stated: every failure path of the \<open>AuthenticatedEncryption\<close> operations
  returns the empty byte array, the same value a successful call returns for an empty
  input, so the return value alone cannot tell the two apart. On the code the two values
  differ: decrypting under a wrong tag returns the null \<open>QByteArray()\<close>, decrypting
  the empty ciphertext under its right tag returns \<open>QByteArray(ptr, 0)\<close>, which is
  empty and not null, and \<open>isNull()\<close> on the return value tells which it was.
\<close>

theorem null_failure_differs_from_empty_success:
  "fst (decrypt_aes_gcm (aead_provider toy_prims) [104, 100, 110, 111, 107, 37, 103, 98, 105, 109]
        (replicate 32 170) (replicate 12 1) (replicate 16 11) [99, 116, 120] (EVP_aes AES256 GCM)) = Inr Null
   \<and> fst (decrypt_aes_gcm (aead_provider toy_prims) []
        (replicate 32 170) (replicate 12 1) (replicate 16 111) [99, 116, 120] (EVP_aes AES256 GCM)) = Inr (Bytes [])
   \<and> isNull Null \<and> \<not> isNull (Bytes [])"
proof -
  have "fst (decrypt_aes_gcm (aead_provider toy_prims) [104, 100, 110, 111, 107, 37, 103, 98, 105, 109]
        (replicate 32 170) (replicate 12 1) (replicate 16 11) [99, 116, 120] (EVP_aes AES256 GCM)) = Inr Null"
    by code_simp
  moreover have "fst (decrypt_aes_gcm (aead_provider toy_prims) []
        (replicate 32 170) (replicate 12 1) (replicate 16 111) [99, 116, 120] (EVP_aes AES256 GCM)) = Inr (Bytes [])"
    by code_simp
  ultimately show ?thesis
    by simp
qed

text \<open>
  C10, amended. In the \<open>AuthenticatedEncryption\<close> operations every failure path
  returns the null array \<open>QByteArray()\<close>. It has no bytes, as the array a successful
  call returns for an empty input has none, so the bytes of the return value
  (\<open>size()\<close>, \<open>isEmpty()\<close>, \<open>==\<close>) do not tell a failure from a success on an empty
  message; but the returned array is null exactly when a step failed, so \<open>isNull()\<close>
  does. Holds for every provider.
\<close>

theorem failure_returns_null_array:
  "(step_failed P tr \<longrightarrow>
      (encrypt_aes_gcm P data key iv tag aad cipher = (res, tr) \<longrightarrow> res = Inr (Null, tag))
    \<and> (encrypt_aes_ccm P data key iv tag aad cipher = (res, tr) \<longrightarrow> res = Inr (Null, tag))
    \<and> (decrypt_aes_gcm P data key iv tag aad cipher = (res', tr) \<longrightarrow> res' = Inr Null)
    \<and> (decrypt_aes_ccm P data key iv tag aad cipher = (res', tr) \<longrightarrow> res' = Inr Null))
   \<and> (encrypt_aes_gcm P data key iv tag aad cipher = (Inr (out, tag'), tr') \<longrightarrow>
        (isNull out \<longleftrightarrow> step_failed P tr') \<and> (data = [] \<longrightarrow> bytes_of out = []))
   \<and> (encrypt_aes_ccm P data key iv tag aad cipher = (Inr (out, tag'), tr') \<longrightarrow>
        (isNull out \<longleftrightarrow> step_failed P tr') \<and> (data = [] \<longrightarrow> bytes_of out = []))
   \<and> (decrypt_aes_gcm P data key iv tag aad cipher = (Inr out', tr') \<longrightarrow>
        (isNull out' \<longleftrightarrow> step_failed P tr') \<and> (data = [] \<longrightarrow> bytes_of out' = []))
   \<and> (decrypt_aes_ccm P data key iv tag aad cipher = (Inr out', tr') \<longrightarrow>
        (isNull out' \<longleftrightarrow> step_failed P tr') \<and> (data = [] \<longrightarrow> bytes_of out' = []))"
proof (intro conjI impI)
  assume "step_failed P tr" and "encrypt_aes_gcm P data key iv tag aad cipher = (res, tr)"
  then show "res = Inr (Null, tag)"
    by (rule encrypt_aes_gcm_failed_step [rotated])
next
  assume "step_failed P tr" and "encrypt_aes_ccm P data key iv tag aad cipher = (res, tr)"
  then show "res = Inr (Null, tag)"
    by (rule encrypt_aes_ccm_failed_step [rotated])
next
  assume "step_failed P tr" and "decrypt_aes_gcm P data key iv tag aad cipher = (res', tr)"
  then show "res' = Inr Null"
    by (rule decrypt_aes_gcm_failed_step [rotated])
next
  assume "step_failed P tr" and "decrypt_aes_ccm P data key iv tag aad cipher = (res', tr)"
  then show "res' = Inr Null"
    by (rule decrypt_aes_ccm_failed_step [rotated])
next
  assume "encrypt_aes_gcm P data key iv tag aad cipher = (Inr (out, tag'), tr')"
  then show "isNull out \<longleftrightarrow> step_failed P tr'"
    by (rule encrypt_aes_gcm_null)
next
  assume "encrypt_aes_gcm P data key iv tag aad cipher = (Inr (out, tag'), tr')" and "data = []"
  then show "bytes_of out = []"
    using encrypt_aes_gcm_empty by blast
next
  assume "encrypt_aes_ccm P data key iv tag aad cipher = (Inr (out, tag'), tr')"
  then show "isNull out \<longleftrightarrow> step_failed P tr'"
    by (rule encrypt_aes_ccm_null)
next
  assume "encrypt_aes_ccm P data key iv tag aad cipher = (Inr (out, tag'), tr')" and "data = []"
  then show "bytes_of out = []"
    using encrypt_aes_ccm_empty by blast
next
  assume "decrypt_aes_gcm P data key iv tag aad cipher = (Inr out', tr')"
  then show "isNull out' \<longleftrightarrow> step_failed P tr'"
    by (rule decrypt_aes_gcm_null)
next
  assume "decrypt_aes_gcm P data key iv tag aad cipher = (Inr out', tr')" and "data = []"
  then show "bytes_of out' = []"
    using decrypt_aes_gcm_empty by blast
next
  assume "decrypt_aes_ccm P data key iv tag aad cipher = (Inr out', tr')"
  then show "isNull out' \<longleftrightarrow> step_failed P tr'"
    by (rule decrypt_aes_ccm_null)
next
  assume "decrypt_aes_ccm P data key iv tag aad cipher = (Inr out', tr')" and "data = []"
  then show "bytes_of out' = []"
    using decrypt_aes_ccm_empty by blast
qed

text \<open>
  With the scenario's key, nonce and associated data: decrypting a ciphertext under a
  wrong tag fails at finalize and returns an array that is null; decrypting the empty
  ciphertext under its right tag fails nowhere and returns an array that is not null;
  neither has bytes.
\<close>

theorem failure_returns_null_array_witness:
  "step_failed (aead_provider toy_prims)
     (snd (decrypt_aes_gcm (aead_provider toy_prims) [104, 100, 110, 111, 107, 37, 103, 98, 105, 109]
        (replicate 32 170) (replicate 12 1) (replicate 16 11) [99, 116, 120] (EVP_aes AES256 GCM)))
   \<and> fst (decrypt_aes_gcm (aead_provider toy_prims) [104, 100, 110, 111, 107, 37, 103, 98, 105, 109]
        (replicate 32 170) (replicate 12 1) (replicate 16 11) [99, 116, 120] (EVP_aes AES256 GCM)) = Inr Null
   \<and> \<not> step_failed (aead_provider toy_prims)
     (snd (decrypt_aes_gcm (aead_provider toy_prims) []
        (replicate 32 170) (replicate 12 1) (replicate 16 111) [99, 116, 120] (EVP_aes AES256 GCM)))
   \<and> (\<exists>out. fst (decrypt_aes_gcm (aead_provider toy_prims) []
        (replicate 32 170) (replicate 12 1) (replicate 16 111) [99, 116, 120] (EVP_aes AES256 GCM)) = Inr out
         \<and> \<not> isNull out \<and> bytes_of out = [])"
proof -
  let ?bad = "decrypt_aes_gcm (aead_provider toy_prims) [104, 100, 110, 111, 107, 37, 103, 98, 105, 109]
        (replicate 32 170) (replicate 12 1) (replicate 16 11) [99, 116, 120] (EVP_aes AES256 GCM)"
  let ?empty = "decrypt_aes_gcm (aead_provider toy_prims) []
        (replicate 32 170) (replicate 12 1) (replicate 16 111) [99, 116, 120] (EVP_aes AES256 GCM)"
  have failed: "step_failed (aead_provider toy_prims) (snd ?bad)"
    by code_simp
  have ok: "\<not> step_failed (aead_provider toy_prims) (snd ?empty)"
    by code_simp
  have "\<not> isl (fst ?empty)"
    by code_simp
  then obtain out where out: "?empty = (Inr out, snd ?empty)"
    by (cases "fst ?empty") (auto simp: prod_eq_iff)
  have pair: "?bad = (fst ?bad, snd ?bad)"
    by simp
  note inst = failure_returns_null_array [of "aead_provider toy_prims"]
  have bad: "fst ?bad = Inr Null"
    by (rule inst [THEN conjunct1, THEN mp, OF failed, THEN conjunct2, THEN conjunct2, THEN conjunct1,
          THEN mp, OF pair])
  have "(isNull out \<longleftrightarrow> step_failed (aead_provider toy_prims) (snd ?empty)) \<and> ([] = ([]::bytes) \<longrightarrow> bytes_of out = [])"
    by (rule inst [THEN conjunct2, THEN conjunct2, THEN conjunct2, THEN conjunct1, THEN mp, OF out])
  with ok have "\<not> isNull out" "bytes_of out = []"
    by simp_all
  with failed bad ok out show ?thesis
    by (simp add: prod_eq_iff)
qed

section \<open>The order of calls\<close>















section \<open>Output lengths\<close>

text \<open>
  The ciphertext returned is \<open>cipherTextLength\<close> bytes of the buffer, the count the data
  update stored; the tag array keeps its length, and is the provider's tag when the
  provider wrote as many bytes as the control call asked for.
\<close>

lemma encryptAesGcm_lengths:
  assumes "encryptAesGcm P data key iv tag aad cipher = (Inr (ct, tag'), tr)"
  shows "\<exists>ru rt. (EVP_EncryptUpdate (Buf 0) (Some data) (int (length data)), ru) \<in> set tr
           \<and> (EVP_CIPHER_CTX_ctrl EVP_CTRL_GCM_GET_TAG (int (length tag)) (Some tag), rt) \<in> set tr
           \<and> int (length ct) = outl ru \<and> length tag' = length tag
           \<and> (stream_like tr \<longrightarrow> length ct = length data \<and> tag' = written rt)"
  using assms
  apply (auto simp: encryptAesGcm_def call_def Let_def stream_like_def store_whole
           split: option.splits prod.splits if_splits)
   apply (auto simp: fits_def)
  done

lemma encryptAesCcm_lengths:
  assumes "encryptAesCcm P data key iv tag aad cipher = (Inr (ct, tag'), tr)"
  shows "\<exists>ru rt. (EVP_EncryptUpdate (Buf 0) (Some data) (int (length data)), ru) \<in> set tr
           \<and> (EVP_CIPHER_CTX_ctrl EVP_CTRL_CCM_GET_TAG (int (length tag)) (Some tag), rt) \<in> set tr
           \<and> int (length ct) = outl ru \<and> length tag' = length tag
           \<and> (stream_like tr \<longrightarrow> length ct = length data \<and> tag' = written rt)"
  using assms
  apply (auto simp: encryptAesCcm_def call_def Let_def stream_like_def store_whole
           split: option.splits prod.splits if_splits)
   apply (auto simp: fits_def)
  done

text \<open>
  C5. Every successful AEAD encryption (GCM or CCM) returns a ciphertext whose length is
  the byte count the single data update reported, which for these stream-like modes is
  the length of the plaintext, together with a tag of exactly the length the caller asked
  for, written into the tag array. The provider's share (it reports the input length and
  writes the requested number of tag bytes) is \<open>stream_like\<close>.
\<close>

theorem aead_encryption_output_lengths:
  "(encryptAesGcm P data key iv tag aad cipher = (Inr (ct, tag'), tr) \<longrightarrow>
      (\<exists>ru rt. (EVP_EncryptUpdate (Buf 0) (Some data) (int (length data)), ru) \<in> set tr
         \<and> (EVP_CIPHER_CTX_ctrl EVP_CTRL_GCM_GET_TAG (int (length tag)) (Some tag), rt) \<in> set tr
         \<and> int (length ct) = outl ru \<and> length tag' = length tag
         \<and> (stream_like tr \<longrightarrow> length ct = length data \<and> tag' = written rt)))
   \<and> (encryptAesCcm P data key iv tag aad cipher = (Inr (ct, tag'), tr) \<longrightarrow>
      (\<exists>ru rt. (EVP_EncryptUpdate (Buf 0) (Some data) (int (length data)), ru) \<in> set tr
         \<and> (EVP_CIPHER_CTX_ctrl EVP_CTRL_CCM_GET_TAG (int (length tag)) (Some tag), rt) \<in> set tr
         \<and> int (length ct) = outl ru \<and> length tag' = length tag
         \<and> (stream_like tr \<longrightarrow> length ct = length data \<and> tag' = written rt)))"
  using encryptAesGcm_lengths [of P data key iv tag aad cipher ct tag' tr]
    encryptAesCcm_lengths [of P data key iv tag aad cipher ct tag' tr]
  by blast

text \<open>The scenario's GCM encryption: ten bytes of ciphertext and a 16-byte tag.\<close>

theorem aead_encryption_output_lengths_witness:
  "stream_like (snd (encryptAesGcm (aead_provider toy_prims) [104, 101, 108, 108, 111, 32, 97, 101, 97, 100]
      (replicate 32 170) (replicate 12 1) (replicate 16 0) [99, 116, 120] (EVP_aes AES256 GCM)))
   \<and> (\<exists>ct tag'. fst (encryptAesGcm (aead_provider toy_prims) [104, 101, 108, 108, 111, 32, 97, 101, 97, 100]
      (replicate 32 170) (replicate 12 1) (replicate 16 0) [99, 116, 120] (EVP_aes AES256 GCM)) = Inr (ct, tag')
      \<and> length ct = 10 \<and> length tag' = 16)"
proof -
  let ?run = "encryptAesGcm (aead_provider toy_prims) [104, 101, 108, 108, 111, 32, 97, 101, 97, 100]
      (replicate 32 170) (replicate 12 1) (replicate 16 0) [99, 116, 120] (EVP_aes AES256 GCM)"
  have ok: "fst ?run = Inr ([104, 100, 110, 111, 107, 37, 103, 98, 105, 109], replicate 16 44)"
    by code_simp
  have stream: "stream_like (snd ?run)"
    by code_simp
  from aead_encryption_output_lengths [of "aead_provider toy_prims"
      "[104, 101, 108, 108, 111, 32, 97, 101, 97, 100]" "replicate 32 170" "replicate 12 1"
      "replicate 16 0" "[99, 116, 120]" "EVP_aes AES256 GCM"
      "[104, 100, 110, 111, 107, 37, 103, 98, 105, 109]" "replicate 16 44" "snd ?run"]
  have "length [104, 100, 110, 111, 107, 37, 103, 98, 105, 109 :: byte]
          = length [104, 101, 108, 108, 111, 32, 97, 101, 97, 100 :: byte]
        \<and> length (replicate 16 (44::byte)) = length (replicate 16 (0::byte))"
    using ok stream by (auto simp: prod_eq_iff)
  with ok stream show ?thesis
    by simp
qed

section \<open>The block cipher buffer\<close>

text \<open>
  The buffer has \<open>data.size() + AES_BLOCK_SIZE\<close> bytes. Update writes at its start,
  finalize writes at the offset update reported, and the result is the first
  \<open>update count + finalize count\<close> bytes.
\<close>

lemma encryptAesBlockCipher_no_overrun:
  assumes "encryptAesBlockCipher P data key iv password salt rounds cipher md = (res, tr)"
    and "emits_within tr"
  shows "res \<noteq> Inl (OutOfBounds OutputBuf)"
  using assms
  apply (auto simp: encryptAesBlockCipher_def call_def Let_def
           split: option.splits prod.splits if_splits)
    apply (auto simp: emits_within_def fits_def AES_BLOCK_SIZE_def)
  done

lemma encryptAesBlockCipher_length:
  assumes "encryptAesBlockCipher P data key iv password salt rounds cipher md = (Inr (out, k, v), tr)"
  shows "\<exists>r1 ru rf.
           tr = [(EVP_EncryptInit_ex cipher k v, r1),
                 (EVP_EncryptUpdate (Buf 0) (Some data) (int (length data)), ru),
                 (EVP_EncryptFinal (Buf (outl ru)), rf)]
           \<and> int (length out) = outl ru + outl rf"
  using assms
  apply (auto simp: encryptAesBlockCipher_def call_def Let_def
           split: option.splits prod.splits if_splits)
  apply (auto simp: fits_def AES_BLOCK_SIZE_def)
  done

lemma encryptAesBlockCipher_capacity:
  assumes "encryptAesBlockCipher P data key iv password salt rounds cipher md = (res, tr)"
    and "(EVP_EncryptUpdate (Buf 0) (Some data) (int (length data)), ru) \<in> set tr"
    and "(EVP_EncryptFinal out, rf) \<in> set tr" and "ret rf \<noteq> 0"
    and "int (length data) + AES_BLOCK_SIZE < outl ru + int (length (written rf))"
  shows "res = Inl (OutOfBounds OutputBuf)"
  using assms
  apply (auto simp: encryptAesBlockCipher_def call_def Let_def
           split: option.splits prod.splits if_splits)
    apply (auto simp: fits_def AES_BLOCK_SIZE_def)
  done

lemma decryptAesBlockCipher_no_overrun:
  assumes "decryptAesBlockCipher P data key iv password salt rounds cipher md = (res, tr)"
    and "emits_within tr"
  shows "res \<noteq> Inl (OutOfBounds OutputBuf)"
  using assms
  apply (auto simp: decryptAesBlockCipher_def call_def Let_def
           split: option.splits prod.splits if_splits)
    apply (auto simp: emits_within_def fits_def AES_BLOCK_SIZE_def)
  done

lemma decryptAesBlockCipher_length:
  assumes "decryptAesBlockCipher P data key iv password salt rounds cipher md = (Inr (out, k, v), tr)"
  shows "\<exists>r1 ru rf.
           tr = [(EVP_DecryptInit_ex cipher k v, r1),
                 (EVP_DecryptUpdate (Buf 0) (Some data) (int (length data)), ru),
                 (EVP_DecryptFinal (Buf (outl ru)), rf)]
           \<and> int (length out) = outl ru + outl rf"
  using assms
  apply (auto simp: decryptAesBlockCipher_def call_def Let_def
           split: option.splits prod.splits if_splits)
  apply (auto simp: fits_def AES_BLOCK_SIZE_def)
  done

lemma decryptAesBlockCipher_capacity:
  assumes "decryptAesBlockCipher P data key iv password salt rounds cipher md = (res, tr)"
    and "(EVP_DecryptUpdate (Buf 0) (Some data) (int (length data)), ru) \<in> set tr"
    and "(EVP_DecryptFinal out, rf) \<in> set tr" and "ret rf \<noteq> 0"
    and "int (length data) + AES_BLOCK_SIZE < outl ru + int (length (written rf))"
  shows "res = Inl (OutOfBounds OutputBuf)"
  using assms
  apply (auto simp: decryptAesBlockCipher_def call_def Let_def
           split: option.splits prod.splits if_splits)
    apply (auto simp: fits_def AES_BLOCK_SIZE_def)
  done

text \<open>
  C8. For every block cipher encryption and decryption the output buffer has room for
  the input length plus one AES block, finalize writes at the offset the update
  reported, and the returned array has the update count plus the finalize count bytes.
  So when an update emits no more than its input and finalize emits at most one block of
  padding (\<open>emits_within\<close>), nothing is written past the end of the buffer; a byte more
  than input length plus one block would be. Holds for every provider.
\<close>

theorem block_cipher_buffer_contract:
  "(encryptAesBlockCipher P data key iv password salt rounds cipher md = (res, tr) \<longrightarrow>
      (emits_within tr \<longrightarrow> res \<noteq> Inl (OutOfBounds OutputBuf))
    \<and> (\<forall>out k v. res = Inr (out, k, v) \<longrightarrow>
          (\<exists>r1 ru rf.
             tr = [(EVP_EncryptInit_ex cipher k v, r1),
                   (EVP_EncryptUpdate (Buf 0) (Some data) (int (length data)), ru),
                   (EVP_EncryptFinal (Buf (outl ru)), rf)]
             \<and> int (length out) = outl ru + outl rf))
    \<and> (\<forall>ru out rf.
          (EVP_EncryptUpdate (Buf 0) (Some data) (int (length data)), ru) \<in> set tr
          \<and> (EVP_EncryptFinal out, rf) \<in> set tr \<and> ret rf \<noteq> 0
          \<and> int (length data) + AES_BLOCK_SIZE < outl ru + int (length (written rf))
          \<longrightarrow> res = Inl (OutOfBounds OutputBuf)))
   \<and> (decryptAesBlockCipher P data key iv password salt rounds cipher md = (res, tr) \<longrightarrow>
      (emits_within tr \<longrightarrow> res \<noteq> Inl (OutOfBounds OutputBuf))
    \<and> (\<forall>out k v. res = Inr (out, k, v) \<longrightarrow>
          (\<exists>r1 ru rf.
             tr = [(EVP_DecryptInit_ex cipher k v, r1),
                   (EVP_DecryptUpdate (Buf 0) (Some data) (int (length data)), ru),
                   (EVP_DecryptFinal (Buf (outl ru)), rf)]
             \<and> int (length out) = outl ru + outl rf))
    \<and> (\<forall>ru out rf.
          (EVP_DecryptUpdate (Buf 0) (Some data) (int (length data)), ru) \<in> set tr
          \<and> (EVP_DecryptFinal out, rf) \<in> set tr \<and> ret rf \<noteq> 0
          \<and> int (length data) + AES_BLOCK_SIZE < outl ru + int (length (written rf))
          \<longrightarrow> res = Inl (OutOfBounds OutputBuf)))"
proof (intro conjI impI allI)
  assume "encryptAesBlockCipher P data key iv password salt rounds cipher md = (res, tr)"
    and "emits_within tr"
  then show "res \<noteq> Inl (OutOfBounds OutputBuf)"
    by (rule encryptAesBlockCipher_no_overrun)
next
  fix out k v
  assume "encryptAesBlockCipher P data key iv password salt rounds cipher md = (res, tr)"
    and "res = Inr (out, k, v)"
  then show "\<exists>r1 ru rf.
             tr = [(EVP_EncryptInit_ex cipher k v, r1),
                   (EVP_EncryptUpdate (Buf 0) (Some data) (int (length data)), ru),
                   (EVP_EncryptFinal (Buf (outl ru)), rf)]
             \<and> int (length out) = outl ru + outl rf"
    using encryptAesBlockCipher_length by blast
next
  fix ru out rf
  assume "encryptAesBlockCipher P data key iv password salt rounds cipher md = (res, tr)"
    and "(EVP_EncryptUpdate (Buf 0) (Some data) (int (length data)), ru) \<in> set tr
          \<and> (EVP_EncryptFinal out, rf) \<in> set tr \<and> ret rf \<noteq> 0
          \<and> int (length data) + AES_BLOCK_SIZE < outl ru + int (length (written rf))"
  then show "res = Inl (OutOfBounds OutputBuf)"
    using encryptAesBlockCipher_capacity by blast
next
  assume "decryptAesBlockCipher P data key iv password salt rounds cipher md = (res, tr)"
    and "emits_within tr"
  then show "res \<noteq> Inl (OutOfBounds OutputBuf)"
    by (rule decryptAesBlockCipher_no_overrun)
next
  fix out k v
  assume "decryptAesBlockCipher P data key iv password salt rounds cipher md = (res, tr)"
    and "res = Inr (out, k, v)"
  then show "\<exists>r1 ru rf.
             tr = [(EVP_DecryptInit_ex cipher k v, r1),
                   (EVP_DecryptUpdate (Buf 0) (Some data) (int (length data)), ru),
                   (EVP_DecryptFinal (Buf (outl ru)), rf)]
             \<and> int (length out) = outl ru + outl rf"
    using decryptAesBlockCipher_length by blast
next
  fix ru out rf
  assume "decryptAesBlockCipher P data key iv password salt rounds cipher md = (res, tr)"
    and "(EVP_DecryptUpdate (Buf 0) (Some data) (int (length data)), ru) \<in> set tr
          \<and> (EVP_DecryptFinal out, rf) \<in> set tr \<and> ret rf \<noteq> 0
          \<and> int (length data) + AES_BLOCK_SIZE < outl ru + int (length (written rf))"
  then show "res = Inl (OutOfBounds OutputBuf)"
    using decryptAesBlockCipher_capacity by blast
qed

text \<open>
  Encrypting ten bytes with the padded block provider: update emits nothing, finalize
  emits the one padded block, within the buffer of 26 bytes.
\<close>

theorem block_cipher_buffer_contract_witness:
  "emits_within (snd (encryptAesBlockCipher block_provider [104, 101, 108, 108, 111, 32, 97, 101, 97, 100]
      (replicate 32 0) (replicate 16 0) [112, 119] [1, 2, 3, 4, 5, 6, 7, 8] 10000 (EVP_aes AES256 CBC) EVP_sha256))
   \<and> fst (encryptAesBlockCipher block_provider [104, 101, 108, 108, 111, 32, 97, 101, 97, 100]
      (replicate 32 0) (replicate 16 0) [112, 119] [1, 2, 3, 4, 5, 6, 7, 8] 10000 (EVP_aes AES256 CBC) EVP_sha256)
       \<noteq> Inl (OutOfBounds OutputBuf)
   \<and> map (\<lambda>(c, r). (ret r, outl r)) (snd (encryptAesBlockCipher block_provider [104, 101, 108, 108, 111, 32, 97, 101, 97, 100]
      (replicate 32 0) (replicate 16 0) [112, 119] [1, 2, 3, 4, 5, 6, 7, 8] 10000 (EVP_aes AES256 CBC) EVP_sha256))
       = [(1, 0), (1, 0), (1, 16)]"
proof -
  let ?run = "encryptAesBlockCipher block_provider [104, 101, 108, 108, 111, 32, 97, 101, 97, 100]
      (replicate 32 0) (replicate 16 0) [112, 119] [1, 2, 3, 4, 5, 6, 7, 8] 10000 (EVP_aes AES256 CBC) EVP_sha256"
  have within: "emits_within (snd ?run)"
    by code_simp
  have counts: "map (\<lambda>(c, r). (ret r, outl r)) (snd ?run) = [(1, 0), (1, 0), (1, 16)]"
    by code_simp
  have pair: "?run = (fst ?run, snd ?run)"
    by simp
  have "fst ?run \<noteq> Inl (OutOfBounds OutputBuf)"
    by (rule block_cipher_buffer_contract [THEN conjunct1, THEN mp, OF pair, THEN conjunct1, THEN mp, OF within])
  with within counts show ?thesis
    by simp
qed

section \<open>Key derivation\<close>







section \<open>Salt\<close>

text \<open>
  The salt has the requested length, but only its first two bytes come from the
  generator; the bytes from offset 2 on are the memory that follows \<open>arr\<close>.
\<close>

lemma generateSalt_bytes:
  "generateSalt rng mem n = map rng [0..<min 2 (unat n)] @ map mem [2..<unat n]"
proof (rule nth_equalityI)
  show "length (generateSalt rng mem n) = length (map rng [0..<min 2 (unat n)] @ map mem [2..<unat n])"
    by (simp add: generateSalt_def RAND_bytes_def Let_def)
next
  fix i assume "i < length (generateSalt rng mem n)"
  then have i: "i < unat n"
    by (simp add: generateSalt_def Let_def)
  show "generateSalt rng mem n ! i = (map rng [0..<min 2 (unat n)] @ map mem [2..<unat n]) ! i"
  proof (cases "i < 2")
    case True
    with i show ?thesis
      by (simp add: generateSalt_def RAND_bytes_def sizeof_quint16_def Let_def nth_append)
  next
    case False
    then have "2 + (i - 2) = i" by simp
    with False i show ?thesis
      by (simp add: generateSalt_def RAND_bytes_def sizeof_quint16_def Let_def nth_append)
  qed
qed

lemma generateSalt_16: "generateSalt rng mem 16 = rng 0 # rng 1 # map mem [2..<16]"
proof -
  have "[0..<2] = [0, 1::nat]"
    by (simp add: numeral_2_eq_2)
  then show ?thesis
    by (simp add: generateSalt_bytes)
qed

text \<open>
  C3. The claim: for every requested size \<open>generateSalt\<close> returns exactly that many
  bytes, each drawn from the secure generator. The code at size 16: sixteen bytes, of
  which the first two are drawn from the generator and the other fourteen are read from
  the memory behind the two-byte array.
\<close>

theorem generateSalt_16_draws_two_bytes:
  "length (generateSalt rng mem 16) = 16
   \<and> generateSalt rng mem 16 = rng 0 # rng 1 # map mem [2..<16]"
  by (simp add: generateSalt_16)

text \<open>
  C6. The claim: two independent calls of \<open>generateSalt(16)\<close> return different salts
  except with negligible probability. The code: the two salts are equal as soon as the
  generator delivers the same first two bytes to both calls (with the same memory behind
  the array), however its output differs after that, so a salt carries 16 bits of
  randomness, not 128.
\<close>

theorem generateSalt_two_random_bytes:
  assumes "rng 0 = rng' 0" and "rng 1 = rng' 1"
  shows "generateSalt rng mem 16 = generateSalt rng' mem 16"
  using assms by (simp only: generateSalt_16)

text \<open>Two generators that agree on their first two bytes and on no byte after.\<close>

theorem generateSalt_two_random_bytes_witness:
  "(\<lambda>i::nat. if i < 2 then 7 else 1 :: byte) 2 \<noteq> (\<lambda>i::nat. if i < 2 then 7 else 2 :: byte) 2
   \<and> generateSalt (\<lambda>i. if i < 2 then 7 else 1) (\<lambda>i. 0) 16 = generateSalt (\<lambda>i. if i < 2 then 7 else 2) (\<lambda>i. 0) 16"
proof -
  have "generateSalt (\<lambda>i. if i < 2 then 7 else 1) (\<lambda>i. 0) 16 = generateSalt (\<lambda>i. if i < 2 then 7 else 2) (\<lambda>i. 0) 16"
    by (rule generateSalt_two_random_bytes) simp_all
  then show ?thesis
    by simp
qed

section \<open>The drivers on the provider capability\<close>

text \<open>
  On the provider capability, with parameters it accepts, every call of an encryption
  succeeds, and a decryption fails only at finalize, when the expected tag is not the tag
  over the associated data and the recovered message.
\<close>

lemmas aead_defs = aead_provider_def call_def aead_init_def aead_set_ivlen_def aead_set_tag_def
  aead_get_tag_def aead_update_def aead_final_def succeeded_def failed_def fresh_ctx_def

lemma encryptAesGcm_ref:
  assumes "gcm_valid cipher key iv tag"
  shows "fst (encryptAesGcm (aead_provider A) data key iv tag aad cipher) =
         Inr (xor_stream (keystream A cipher key iv) data,
              tag_bytes (mac A cipher key iv aad data) (length tag))"
  using assms
  by (simp add: gcm_valid_def encryptAesGcm_def aead_defs Let_def fits_def store_whole)

lemma decryptAesGcm_ref:
  assumes "gcm_valid cipher key iv tag"
  shows "fst (decryptAesGcm (aead_provider A) data key iv tag aad cipher) =
         (if tag = tag_bytes (mac A cipher key iv aad (xor_stream (keystream A cipher key iv) data)) (length tag)
          then Inr (xor_stream (keystream A cipher key iv) data)
          else Inl (Thrown E_final))"
  using assms
  by (simp add: gcm_valid_def decryptAesGcm_def aead_defs Let_def fits_def store_whole)

lemma encryptAesCcm_ref:
  assumes "ccm_valid cipher key iv tag"
  shows "fst (encryptAesCcm (aead_provider A) data key iv tag aad cipher) =
         Inr (xor_stream (keystream A cipher key iv) data,
              tag_bytes (mac A cipher key iv aad data) (length tag))"
  using assms
  by (simp add: ccm_valid_def encryptAesCcm_def aead_defs Let_def fits_def store_whole)

lemma decryptAesCcm_ref:
  assumes "ccm_valid cipher key iv tag"
  shows "fst (decryptAesCcm (aead_provider A) data key iv tag aad cipher) =
         (if tag = tag_bytes (mac A cipher key iv aad (xor_stream (keystream A cipher key iv) data)) (length tag)
          then Inr (xor_stream (keystream A cipher key iv) data)
          else Inl (Thrown E_final))"
  using assms
  by (simp add: ccm_valid_def decryptAesCcm_def aead_defs Let_def fits_def store_whole)




text \<open>
  C1. For every valid key, nonce, plaintext and associated data, decrypting the
  ciphertext an encryption produced, under the same key, nonce and associated data and
  with the tag that encryption produced, returns the original plaintext, for the GCM
  and for the CCM operations. Proved on the provider capability, for every key stream
  and every tag function.
\<close>

theorem aead_round_trip:
  "(gcm_valid cipher key iv tag \<longrightarrow>
      (\<exists>ct tag'. fst (encryptAesGcm (aead_provider A) data key iv tag aad cipher) = Inr (ct, tag')
         \<and> fst (decryptAesGcm (aead_provider A) ct key iv tag' aad cipher) = Inr data))
   \<and> (ccm_valid cipher key iv tag \<longrightarrow>
      (\<exists>ct tag'. fst (encryptAesCcm (aead_provider A) data key iv tag aad cipher) = Inr (ct, tag')
         \<and> fst (decryptAesCcm (aead_provider A) ct key iv tag' aad cipher) = Inr data))"
proof (intro conjI impI)
  let ?ct = "xor_stream (keystream A cipher key iv) data"
  let ?tag = "tag_bytes (mac A cipher key iv aad data) (length tag)"
  {
    assume valid: "gcm_valid cipher key iv tag"
    then have valid': "gcm_valid cipher key iv ?tag"
      by (simp add: gcm_valid_def)
    have enc: "fst (encryptAesGcm (aead_provider A) data key iv tag aad cipher) = Inr (?ct, ?tag)"
      by (rule encryptAesGcm_ref [OF valid])
    have dec: "fst (decryptAesGcm (aead_provider A) ?ct key iv ?tag aad cipher) = Inr data"
      by (simp add: decryptAesGcm_ref [OF valid'])
    from enc dec
    show "\<exists>ct tag'. fst (encryptAesGcm (aead_provider A) data key iv tag aad cipher) = Inr (ct, tag')
         \<and> fst (decryptAesGcm (aead_provider A) ct key iv tag' aad cipher) = Inr data"
      by blast
  }
  {
    assume valid: "ccm_valid cipher key iv tag"
    then have valid': "ccm_valid cipher key iv ?tag"
      by (simp add: ccm_valid_def)
    have enc: "fst (encryptAesCcm (aead_provider A) data key iv tag aad cipher) = Inr (?ct, ?tag)"
      by (rule encryptAesCcm_ref [OF valid])
    have dec: "fst (decryptAesCcm (aead_provider A) ?ct key iv ?tag aad cipher) = Inr data"
      by (simp add: decryptAesCcm_ref [OF valid'])
    from enc dec
    show "\<exists>ct tag'. fst (encryptAesCcm (aead_provider A) data key iv tag aad cipher) = Inr (ct, tag')
         \<and> fst (decryptAesCcm (aead_provider A) ct key iv tag' aad cipher) = Inr data"
      by blast
  }
qed

text \<open>
  The specification's scenario for GCM (32-byte key of 0xAA, 12-byte nonce of 0x01,
  "hello aead", associated data "ctx", 16-byte tag), and a CCM operation with a 16-byte
  key, a 7-byte nonce, a 4-byte tag and no associated data.
\<close>

theorem aead_round_trip_witness:
  "gcm_valid (EVP_aes AES256 GCM) (replicate 32 170) (replicate 12 1) (replicate 16 0)
   \<and> (\<exists>ct tag'. fst (encryptAesGcm (aead_provider toy_prims) [104, 101, 108, 108, 111, 32, 97, 101, 97, 100]
          (replicate 32 170) (replicate 12 1) (replicate 16 0) [99, 116, 120] (EVP_aes AES256 GCM)) = Inr (ct, tag')
        \<and> fst (decryptAesGcm (aead_provider toy_prims) ct (replicate 32 170) (replicate 12 1) tag'
             [99, 116, 120] (EVP_aes AES256 GCM)) = Inr [104, 101, 108, 108, 111, 32, 97, 101, 97, 100])
   \<and> ccm_valid (EVP_aes AES128 CCM) (replicate 16 170) (replicate 7 1) (replicate 4 0)
   \<and> (\<exists>ct tag'. fst (encryptAesCcm (aead_provider toy_prims) [104, 101, 108, 108, 111, 32, 97, 101, 97, 100]
          (replicate 16 170) (replicate 7 1) (replicate 4 0) [] (EVP_aes AES128 CCM)) = Inr (ct, tag')
        \<and> fst (decryptAesCcm (aead_provider toy_prims) ct (replicate 16 170) (replicate 7 1) tag'
             [] (EVP_aes AES128 CCM)) = Inr [104, 101, 108, 108, 111, 32, 97, 101, 97, 100])"
proof -
  have gcm: "gcm_valid (EVP_aes AES256 GCM) (replicate 32 170) (replicate 12 1) (replicate 16 0)"
    by (simp add: gcm_valid_def)
  have ccm: "ccm_valid (EVP_aes AES128 CCM) (replicate 16 170) (replicate 7 1) (replicate 4 0)"
    by (simp add: ccm_valid_def ccm_tag_length_def)
  note rt = aead_round_trip [of "EVP_aes AES256 GCM" "replicate 32 170" "replicate 12 1" "replicate 16 0"
      toy_prims "[104, 101, 108, 108, 111, 32, 97, 101, 97, 100]" "[99, 116, 120]", THEN conjunct1, THEN mp, OF gcm]
    aead_round_trip [of "EVP_aes AES128 CCM" "replicate 16 170" "replicate 7 1" "replicate 4 0"
      toy_prims "[104, 101, 108, 108, 111, 32, 97, 101, 97, 100]" "[]", THEN conjunct2, THEN mp, OF ccm]
  from gcm ccm rt show ?thesis
    by (intro conjI)
qed

section \<open>Tampering\<close>





end
